theory Spec2Isabelle
  imports Main "HOL-Library.Sublist"
begin

section \<open>JavaScript values and strings\<close>

text \<open>
  A JavaScript string is a sequence of code units. The model uses \<open>string\<close>
  (a list of \<open>char\<close>), each \<open>char\<close> standing for one code unit below 256; the
  separators, patterns and literals of the two scripts are all ASCII.

  A finding's \<open>line\<close> comes from a parsed JSON body, so it is a JavaScript value of
  any primitive kind, or \<open>undefined\<close> when the field is absent. Numbers are integers
  here (line numbers).
\<close>

datatype jsval = JUndefined | JNull | JBool bool | JNum int | JStr string

text \<open>JavaScript truthiness, as tested by \<open>x || y\<close>.\<close>

fun truthy :: "jsval \<Rightarrow> bool" where
  "truthy JUndefined = False"
| "truthy JNull = False"
| "truthy (JBool b) = b"
| "truthy (JNum n) = (n \<noteq> 0)"
| "truthy (JStr s) = (s \<noteq> [])"

text \<open>Decimal rendering of an integer, as a template literal renders a number.\<close>

definition digit_char :: "nat \<Rightarrow> char" where
  "digit_char d = char_of (48 + d)"

function digits :: "nat \<Rightarrow> string" where
  "digits n = (if n < 10 then [digit_char n] else digits (n div 10) @ [digit_char (n mod 10)])"
  by pat_completeness auto
termination
  by (relation "measure id") auto

definition show_int :: "int \<Rightarrow> string" where
  "show_int i = (if i < 0 then CHR ''-'' # digits (nat (- i)) else digits (nat i))"

text \<open>\<open>String(v)\<close> for a primitive value, as a template literal applies it.\<close>

fun to_string :: "jsval \<Rightarrow> string" where
  "to_string JUndefined = ''undefined''"
| "to_string JNull = ''null''"
| "to_string (JBool b) = (if b then ''true'' else ''false'')"
| "to_string (JNum n) = show_int n"
| "to_string (JStr s) = s"

text \<open>
  \<open>s.split(sep)\<close> for a one-character separator: the pieces between the occurrences
  of the separator, so a string with \<open>n\<close> separators gives \<open>n + 1\<close> pieces and the
  result is never empty.
\<close>

fun split_str :: "char \<Rightarrow> string \<Rightarrow> string list" where
  "split_str sep [] = [[]]"
| "split_str sep (c # cs) =
     (if c = sep then [] # split_str sep cs
      else (c # hd (split_str sep cs)) # tl (split_str sep cs))"

text \<open>\<open>xs[i]\<close> on an array: \<open>undefined\<close> (here \<open>None\<close>) out of range.\<close>

definition index :: "'a list \<Rightarrow> nat \<Rightarrow> 'a option" where
  "index xs i = (if i < length xs then Some (xs ! i) else None)"

text \<open>\<open>hay.includes(needle)\<close>: the needle occurs somewhere in the string.\<close>

fun includes_str :: "string \<Rightarrow> string \<Rightarrow> bool" where
  "includes_str [] needle = (needle = [])"
| "includes_str (c # cs) needle = (prefix needle (c # cs) \<or> includes_str cs needle)"

text \<open>
  \<open>s.trim()\<close> removes white space and line terminators from both ends. Among the
  code units below 256 these are 9 to 13, 32 and 160.
\<close>

definition is_space :: "char \<Rightarrow> bool" where
  "is_space c = (of_char c \<in> {9, 10, 11, 12, 13, 32, 160 :: nat})"

definition trim :: "string \<Rightarrow> string" where
  "trim s = rev (dropWhile is_space (rev (dropWhile is_space s)))"

section \<open>Findings\<close>

text \<open>
  One element of the \<open>issues\<close> array of the SonarQube response. The scripts read
  five of its properties.
\<close>

record finding =
  rule :: string
  severity :: string
  component :: string
  line :: jsval
  message :: string

section \<open>File path of a finding\<close>

text \<open>
  \<open>reviewer.js\<close>, \<open>run\<close>: \<open>issue.component.split(":")[1]\<close>. The result is
  \<open>undefined\<close> when the array has a single element.
\<close>

definition review_path :: "string \<Rightarrow> string option" where
  "review_path s = index (split_str CHR '':'' s) 1"

text \<open>
  \<open>sonar-reviewer.js\<close>, \<open>run\<close>:
  \<open>issue.component.split(":")[1] || issue.component\<close>. The empty string is falsy.
\<close>

definition console_path :: "string \<Rightarrow> string" where
  "console_path s =
     (case index (split_str CHR '':'' s) 1 of
        None \<Rightarrow> s
      | Some p \<Rightarrow> if p = [] then s else p)"

text \<open>
  The specification's wording, for comparison: the substring of the component after
  its first \<open>:\<close>, or the whole component when it has none.
\<close>

definition after_first_colon :: "string \<Rightarrow> string" where
  "after_first_colon s =
     (if CHR '':'' \<in> set s then tl (dropWhile (\<lambda>c. c \<noteq> CHR '':'') s) else s)"

text \<open>The second piece: the text between the first \<open>:\<close> and the next one (or the end).\<close>

definition second_piece :: "string \<Rightarrow> string" where
  "second_piece s =
     takeWhile (\<lambda>c. c \<noteq> CHR '':'') (tl (dropWhile (\<lambda>c. c \<noteq> CHR '':'') s))"

section \<open>Effects: the trace of a run\<close>

text \<open>
  A thrown value, as far as the scripts look at it: its \<open>message\<close> property, when
  it has one. \<open>throw undefined\<close> is \<open>Thrown None\<close>.
\<close>

datatype thrown = Thrown (err_message: "string option")

text \<open>
  The engine's \<open>TypeError\<close> for a property read on \<open>undefined\<close> or \<open>null\<close>
  (the engine's wording of the message, shortened).
\<close>

definition undefined_property_error :: thrown where
  "undefined_property_error = Thrown (Some ''Cannot read properties of undefined'')"

definition null_property_error :: thrown where
  "null_property_error = Thrown (Some ''Cannot read properties of null'')"

text \<open>
  What the scripts print. The fixed decoration of each line (emoji, labels) is the
  constructor; the interpolated values are its arguments.
\<close>

datatype console_line =
    LogFetching
  | LogFound nat
  | LogNoIssues
  | LogEnhancing
  | LogSeparator
  | LogFile string
  | LogLine string
  | LogSeverity string
  | LogRule string
  | LogOriginal string
  | LogEnhancedHeader
  | LogText string
  | LogBlank
  | LogComplete nat
  | LogComment string

datatype error_line = GptError thrown | CommentError thrown | FatalError thrown

text \<open>
  Every effect of a run, in the order it happens: the HTTP request to SonarQube (its
  URL), a chat-completion request (its prompt), a \<open>setTimeout\<close> wait (its delay in
  milliseconds), an invocation of some other operation given to \<open>withRetry\<close>, a line
  on the console, and a \<open>createReviewComment\<close> request (body, path, line).
\<close>

datatype event =
    Fetch string
  | ChatCreate string
  | Sleep int
  | Invoke
  | ConsoleLog console_line
  | ConsoleError error_line
  | CreateReviewComment string "string option" jsval

type_synonym trace = "event list"

text \<open>
  An \<open>async\<close> function takes the trace so far and gives its outcome (a thrown value
  or a result) with the trace extended by its own effects.
\<close>

type_synonym 'a async = "trace \<Rightarrow> (thrown + 'a) \<times> trace"

fun is_chat :: "event \<Rightarrow> bool" where
  "is_chat (ChatCreate p) = True"
| "is_chat e = False"

fun is_comment :: "event \<Rightarrow> bool" where
  "is_comment (CreateReviewComment b p l) = True"
| "is_comment e = False"

fun is_invoke :: "event \<Rightarrow> bool" where
  "is_invoke Invoke = True"
| "is_invoke e = False"

definition chat_calls :: "trace \<Rightarrow> nat" where
  "chat_calls tr = length (filter is_chat tr)"

definition comment_calls :: "trace \<Rightarrow> nat" where
  "comment_calls tr = length (filter is_comment tr)"

definition invocations :: "trace \<Rightarrow> nat" where
  "invocations tr = length (filter is_invoke tr)"

section \<open>The services a run talks to\<close>

text \<open>
  The parsed body of the SonarQube response: \<open>res.json()\<close> rejects (\<open>NotJson\<close>),
  gives \<open>null\<close>, or gives a value whose \<open>issues\<close> property is an array of findings
  (\<open>Some\<close>) or is absent or falsy (\<open>None\<close>).
\<close>

datatype json_body = NotJson thrown | JsonNull | JsonValue "finding list option"

record http_response =
  ok :: bool
  statusText :: string
  body :: json_body

text \<open>
  A chat completion: its choices, each by the \<open>content\<close> of its message, which the
  API gives as a string or as \<open>null\<close>.
\<close>

datatype chat_response = ChatResponse (choices: "string option list")

text \<open>
  The environment of one run: the configuration read from \<open>process.env\<close> and the
  behaviour of the three services. The outcome of a chat-completion request may depend
  on how many such requests came before and on the prompt; the same for review
  comments.
\<close>

record env =
  SONARQUBE_URL :: string
  SONARQUBE_PROJECT :: string
  fetch_outcome :: "thrown + http_response"
  chat_outcome :: "nat \<Rightarrow> string \<Rightarrow> thrown + chat_response"
  comment_outcome :: "nat \<Rightarrow> thrown + unit"

section \<open>fetchSonarIssues (both scripts)\<close>

text \<open>The request of both scripts (the \<open>Authorization\<close> header is left out of the model).\<close>

definition issues_url :: "env \<Rightarrow> string" where
  "issues_url env =
     SONARQUBE_URL env @ ''/api/issues/search?componentKeys='' @ SONARQUBE_PROJECT env @
     ''&resolved=false''"

definition fetchSonarIssues :: "env \<Rightarrow> finding list async" where
  "fetchSonarIssues env tr =
     (let tr1 = tr @ [Fetch (issues_url env)]
      in case fetch_outcome env of
           Inl err \<Rightarrow> (Inl err, tr1)
         | Inr res \<Rightarrow>
             if \<not> ok res
             then (Inl (Thrown (Some (''SonarQube API error: '' @ statusText res))), tr1)
             else (case body res of
                     NotJson err \<Rightarrow> (Inl err, tr1)
                   | JsonNull \<Rightarrow> (Inl null_property_error, tr1)
                   | JsonValue None \<Rightarrow> (Inr [], tr1)
                   | JsonValue (Some issues) \<Rightarrow> (Inr issues, tr1)))"

section \<open>withRetry (sonar-reviewer.js)\<close>

text \<open>
  The options: \<open>retries\<close> counts the additional attempts, so it is a natural number;
  \<open>baseDelayMs\<close> is an integer number of milliseconds.
\<close>

record options =
  retries :: nat
  baseDelayMs :: int

definition default_options :: options where
  "default_options = \<lparr>retries = 2, baseDelayMs = 500\<rparr>"

text \<open>The test of the \<open>catch\<close> block: the message names a connection failure.\<close>

definition is_conn :: "thrown \<Rightarrow> bool" where
  "is_conn err =
     (let msg = (case err_message err of None \<Rightarrow> [] | Some m \<Rightarrow> m)
      in includes_str msg ''APIConnectionError'' \<or> includes_str msg ''fetch failed'' \<or>
         includes_str msg ''ENOTFOUND'' \<or> includes_str msg ''ETIMEDOUT'')"

text \<open>\<open>throw lastErr\<close>, where \<open>lastErr\<close> is \<open>undefined\<close> until a call has failed.\<close>

definition throw_last :: "thrown option \<Rightarrow> thrown" where
  "throw_last lastErr = (case lastErr of None \<Rightarrow> Thrown None | Some err \<Rightarrow> err)"

text \<open>
  The \<open>while\<close> loop, from the state \<open>(attempt, lastErr)\<close>. \<open>break\<close> leaves the loop
  for \<open>throw lastErr\<close>.
\<close>

function withRetry_loop ::
  "'a async \<Rightarrow> options \<Rightarrow> nat \<Rightarrow> thrown option \<Rightarrow> 'a async" where
  "withRetry_loop fn opts attempt lastErr tr =
     (if attempt \<le> retries opts then
        (case fn tr of
           (Inr v, tr1) \<Rightarrow> (Inr v, tr1)
         | (Inl err, tr1) \<Rightarrow>
             if \<not> is_conn err \<or> attempt = retries opts
             then (Inl (throw_last (Some err)), tr1)
             else withRetry_loop fn opts (attempt + 1) (Some err)
                    (tr1 @ [Sleep (baseDelayMs opts * 2 ^ attempt)]))
      else (Inl (throw_last lastErr), tr))"
  by pat_completeness auto
termination
  by (relation "measure (\<lambda>(fn, opts, attempt, lastErr, tr). Suc (retries opts) - attempt)") auto

definition withRetry :: "'a async \<Rightarrow> options \<Rightarrow> 'a async" where
  "withRetry fn opts tr = withRetry_loop fn opts 0 None tr"

text \<open>
  An operation as \<open>withRetry\<close> sees it: each invocation fails or succeeds. Its
  outcome may depend on how many invocations came before.
\<close>

definition operation :: "(nat \<Rightarrow> thrown + 'a) \<Rightarrow> 'a async" where
  "operation outcome tr = (outcome (invocations tr), tr @ [Invoke])"

section \<open>enhanceWithGPT\<close>

text \<open>The template literal, the same in both scripts.\<close>

definition nl :: string where
  "nl = [CHR 0x0A]"

definition build_prompt :: "finding \<Rightarrow> string" where
  "build_prompt issue =
     nl @ ''You are a code reviewer. Summarize this SonarQube issue into a clear GitHub PR comment.'' @
     nl @ ''Explain in simple language, give reasoning, and suggest a fix.'' @
     nl @
     nl @ ''Issue:'' @
     nl @ ''Rule: '' @ rule issue @
     nl @ ''Severity: '' @ severity issue @
     nl @ ''File: '' @ component issue @
     nl @ ''Line: '' @ (if truthy (line issue) then to_string (line issue) else ''N/A'') @
     nl @ ''Message: '' @ message issue @
     nl @ ''  ''"

text \<open>\<open>openai.chat.completions.create\<close> with the prompt as the one user message.\<close>

definition chat_create :: "env \<Rightarrow> string \<Rightarrow> chat_response async" where
  "chat_create env prompt tr = (chat_outcome env (chat_calls tr) prompt, tr @ [ChatCreate prompt])"

text \<open>
  \<open>response.choices[0].message.content.trim()\<close>: a \<open>TypeError\<close> when there is no
  first choice or its content is \<open>null\<close>.
\<close>

definition completion_text :: "chat_response \<Rightarrow> thrown + string" where
  "completion_text response =
     (case index (choices response) 0 of
        None \<Rightarrow> Inl undefined_property_error
      | Some None \<Rightarrow> Inl null_property_error
      | Some (Some content) \<Rightarrow> Inr (trim content))"

text \<open>The \<open>catch\<close> block of both scripts: print the error, return the message.\<close>

definition gpt_fallback :: "finding \<Rightarrow> thrown \<Rightarrow> string async" where
  "gpt_fallback issue err tr = (Inr (message issue), tr @ [ConsoleError (GptError err)])"

text \<open>\<open>reviewer.js\<close>: the request is sent once.\<close>

definition enhanceWithGPT_reviewer :: "env \<Rightarrow> finding \<Rightarrow> string async" where
  "enhanceWithGPT_reviewer env issue tr =
     (case chat_create env (build_prompt issue) tr of
        (Inl err, tr1) \<Rightarrow> gpt_fallback issue err tr1
      | (Inr response, tr1) \<Rightarrow>
          (case completion_text response of
             Inl err \<Rightarrow> gpt_fallback issue err tr1
           | Inr text \<Rightarrow> (Inr text, tr1)))"

text \<open>\<open>sonar-reviewer.js\<close>: the request goes through \<open>withRetry\<close>, with its default options.\<close>

definition enhanceWithGPT_sonar :: "env \<Rightarrow> finding \<Rightarrow> string async" where
  "enhanceWithGPT_sonar env issue tr =
     (case withRetry (chat_create env (build_prompt issue)) default_options tr of
        (Inl err, tr1) \<Rightarrow> gpt_fallback issue err tr1
      | (Inr response, tr1) \<Rightarrow>
          (case completion_text response of
             Inl err \<Rightarrow> gpt_fallback issue err tr1
           | Inr text \<Rightarrow> (Inr text, tr1)))"

section \<open>postComment (reviewer.js)\<close>

text \<open>
  The request carries \<open>line || 1\<close>. A failure of the request is printed and not
  thrown again.
\<close>

definition postComment :: "env \<Rightarrow> string \<Rightarrow> string option \<Rightarrow> jsval \<Rightarrow> unit async" where
  "postComment env body_text path ln tr =
     (let tr1 = tr @ [CreateReviewComment body_text path (if truthy ln then ln else JNum 1)]
      in case comment_outcome env (comment_calls tr) of
           Inl err \<Rightarrow> (Inr (), tr1 @ [ConsoleError (CommentError err)])
         | Inr u \<Rightarrow> (Inr (), tr1))"

section \<open>run (reviewer.js)\<close>

text \<open>The body of the \<open>for\<close> loop for one finding.\<close>

definition review_issue :: "env \<Rightarrow> finding \<Rightarrow> unit async" where
  "review_issue env issue tr =
     (case enhanceWithGPT_reviewer env issue tr of
        (Inl err, tr1) \<Rightarrow> (Inl err, tr1)
      | (Inr gptComment, tr1) \<Rightarrow>
          postComment env gptComment (review_path (component issue)) (line issue)
            (tr1 @ [ConsoleLog (LogComment gptComment)]))"

fun review_loop :: "env \<Rightarrow> finding list \<Rightarrow> unit async" where
  "review_loop env [] tr = (Inr (), tr)"
| "review_loop env (issue # rest) tr =
     (case review_issue env issue tr of
        (Inl err, tr1) \<Rightarrow> (Inl err, tr1)
      | (Inr u, tr1) \<Rightarrow> review_loop env rest tr1)"

definition run_reviewer :: "env \<Rightarrow> unit async" where
  "run_reviewer env tr =
     (case fetchSonarIssues env tr of
        (Inl err, tr1) \<Rightarrow> (Inl err, tr1)
      | (Inr issues, tr1) \<Rightarrow> review_loop env issues tr1)"

section \<open>run (sonar-reviewer.js)\<close>

text \<open>The lines printed for a finding before the enrichment, and after it.\<close>

definition console_header :: "finding \<Rightarrow> trace" where
  "console_header issue =
     [ConsoleLog LogSeparator,
      ConsoleLog (LogFile (console_path (component issue))),
      ConsoleLog (LogLine (if truthy (line issue) then to_string (line issue) else ''N/A'')),
      ConsoleLog (LogSeverity (severity issue)),
      ConsoleLog (LogRule (rule issue)),
      ConsoleLog (LogOriginal (message issue))]"

definition console_footer :: "string \<Rightarrow> trace" where
  "console_footer gptComment =
     [ConsoleLog LogEnhancedHeader, ConsoleLog (LogText gptComment), ConsoleLog LogBlank]"

definition console_issue :: "env \<Rightarrow> finding \<Rightarrow> unit async" where
  "console_issue env issue tr =
     (case enhanceWithGPT_sonar env issue (tr @ console_header issue) of
        (Inl err, tr1) \<Rightarrow> (Inl err, tr1)
      | (Inr gptComment, tr1) \<Rightarrow> (Inr (), tr1 @ console_footer gptComment))"

fun console_loop :: "env \<Rightarrow> finding list \<Rightarrow> unit async" where
  "console_loop env [] tr = (Inr (), tr)"
| "console_loop env (issue # rest) tr =
     (case console_issue env issue tr of
        (Inl err, tr1) \<Rightarrow> (Inl err, tr1)
      | (Inr u, tr1) \<Rightarrow> console_loop env rest tr1)"

definition run_sonar :: "env \<Rightarrow> unit async" where
  "run_sonar env tr =
     (case fetchSonarIssues env (tr @ [ConsoleLog LogFetching]) of
        (Inl err, tr1) \<Rightarrow> (Inl err, tr1)
      | (Inr issues, tr1) \<Rightarrow>
          let tr2 = tr1 @ [ConsoleLog (LogFound (length issues))]
          in if length issues = 0 then (Inr (), tr2 @ [ConsoleLog LogNoIssues])
             else (case console_loop env issues (tr2 @ [ConsoleLog LogEnhancing]) of
                     (Inl err, tr3) \<Rightarrow> (Inl err, tr3)
                   | (Inr u, tr3) \<Rightarrow>
                       (Inr (), tr3 @ [ConsoleLog LogSeparator,
                                       ConsoleLog (LogComplete (length issues))])))"

section \<open>The top level (both scripts)\<close>

text \<open>
  \<open>run().catch(...)\<close>: a failure of \<open>run\<close> is printed and the process exits with
  status 1; otherwise the process ends with status 0.
\<close>

definition main :: "unit async \<Rightarrow> trace \<Rightarrow> nat \<times> trace" where
  "main run tr =
     (case run tr of
        (Inl err, tr1) \<Rightarrow> (1, tr1 @ [ConsoleError (FatalError err)])
      | (Inr u, tr1) \<Rightarrow> (0, tr1))"

section \<open>The shape of a trace\<close>

text \<open>
  The events that belong to the enrichment of a finding: a chat-completion request with
  the prompt of that finding, a wait between two attempts, and the \<open>GPT Error\<close> line.
\<close>

fun enrich_event :: "finding \<Rightarrow> event \<Rightarrow> bool" where
  "enrich_event f (ChatCreate p) = (p = build_prompt f)"
| "enrich_event f (Sleep d) = True"
| "enrich_event f (ConsoleError (GptError err)) = True"
| "enrich_event f e = False"

text \<open>
  The events that publish a finding: a console line that shows the finding or its
  enriched text, and a review-comment request.
\<close>

fun is_publish :: "event \<Rightarrow> bool" where
  "is_publish (ConsoleLog (LogFile p)) = True"
| "is_publish (ConsoleLog (LogLine l)) = True"
| "is_publish (ConsoleLog (LogSeverity s)) = True"
| "is_publish (ConsoleLog (LogRule r)) = True"
| "is_publish (ConsoleLog (LogOriginal m)) = True"
| "is_publish (ConsoleLog LogEnhancedHeader) = True"
| "is_publish (ConsoleLog (LogText c)) = True"
| "is_publish (ConsoleLog (LogComment c)) = True"
| "is_publish (CreateReviewComment b p l) = True"
| "is_publish e = False"

text \<open>
  Enrichment is over before publishing begins: from the first publishing event on, the
  trace has no chat-completion request.
\<close>

definition publish_after_enrich :: "trace \<Rightarrow> bool" where
  "publish_after_enrich b = (\<not> list_ex is_chat (dropWhile (\<lambda>e. \<not> is_publish e) b))"

fun is_comment_error :: "event \<Rightarrow> bool" where
  "is_comment_error (ConsoleError (CommentError err)) = True"
| "is_comment_error e = False"

text \<open>
  The events of one finding in \<open>reviewer.js\<close>: the enrichment, starting with the
  request; then the enriched text on the console and in a review-comment request for
  the path and line of the finding; then at most the line that reports a failed request.
\<close>

definition review_block :: "finding \<Rightarrow> trace \<Rightarrow> bool" where
  "review_block f b =
     (takeWhile (enrich_event f) b \<noteq> [] \<and> hd b = ChatCreate (build_prompt f) \<and>
      (case dropWhile (enrich_event f) b of
         ConsoleLog (LogComment c) # CreateReviewComment c' p l # rest \<Rightarrow>
           c' = c \<and> p = review_path (component f) \<and>
           l = (if truthy (line f) then line f else JNum 1) \<and>
           length rest \<le> 1 \<and> list_all is_comment_error rest
       | _ \<Rightarrow> False))"

text \<open>
  The events of one finding in \<open>sonar-reviewer.js\<close>: the six lines that show the
  finding; then the enrichment, starting with the request; then the enriched text.
\<close>

definition console_block :: "finding \<Rightarrow> trace \<Rightarrow> bool" where
  "console_block f b =
     (take 6 b = console_header f \<and>
      takeWhile (enrich_event f) (drop 6 b) \<noteq> [] \<and>
      hd (drop 6 b) = ChatCreate (build_prompt f) \<and>
      (case dropWhile (enrich_event f) (drop 6 b) of
         ConsoleLog LogEnhancedHeader # ConsoleLog (LogText c) # rest \<Rightarrow> rest = [ConsoleLog LogBlank]
       | _ \<Rightarrow> False))"

section \<open>Example inputs\<close>

definition finding_a :: finding where
  "finding_a = \<lparr>rule = ''typescript:S1128'', severity = ''MINOR'',
                 component = ''myproj:src/a/b.ts'', line = JUndefined,
                 message = ''Remove this unused import.''\<rparr>"

definition finding_b :: finding where
  "finding_b = \<lparr>rule = ''typescript:S125'', severity = ''MAJOR'',
                 component = ''myproj:src/c.ts'', line = JNum 0,
                 message = ''Remove this commented out code.''\<rparr>"

definition finding_c :: finding where
  "finding_c = \<lparr>rule = ''typescript:S1854'', severity = ''MAJOR'',
                 component = ''myproj:src/d.ts'', line = JNum 12,
                 message = ''Remove this useless assignment.''\<rparr>"

text \<open>An environment with the given answers of SonarQube and of the chat-completion service.\<close>

definition example_env ::
  "(thrown + http_response) \<Rightarrow> (nat \<Rightarrow> string \<Rightarrow> thrown + chat_response) \<Rightarrow> env" where
  "example_env f c =
     \<lparr>SONARQUBE_URL = ''http://localhost:9000'', SONARQUBE_PROJECT = ''myproj'',
      fetch_outcome = f, chat_outcome = c, comment_outcome = (\<lambda>n. Inr ())\<rparr>"

definition ok_response :: "finding list \<Rightarrow> http_response" where
  "ok_response issues = \<lparr>ok = True, statusText = ''OK'', body = JsonValue (Some issues)\<rparr>"

text \<open>A completion with white space and a line break around its text.\<close>

definition example_completion :: string where
  "example_completion = ''  The value is never read. '' @ nl"

section \<open>Properties of the string helpers\<close>

lemma split_str_nonempty: "split_str sep s \<noteq> []"
  by (induction s) auto

lemma hd_split_str: "hd (split_str sep s) = takeWhile (\<lambda>c. c \<noteq> sep) s"
  by (induction s) auto

lemma tl_split_str:
  "tl (split_str sep s) =
     (if sep \<in> set s then split_str sep (tl (dropWhile (\<lambda>c. c \<noteq> sep) s)) else [])"
  by (induction s) auto

lemma index_Suc_0: "index xs (Suc 0) = (case tl xs of [] \<Rightarrow> None | y # _ \<Rightarrow> Some y)"
  by (cases xs; cases "tl xs") (auto simp: index_def)

lemma index_split_str_1:
  "index (split_str sep s) (Suc 0) =
     (if sep \<in> set s
      then Some (takeWhile (\<lambda>c. c \<noteq> sep) (tl (dropWhile (\<lambda>c. c \<noteq> sep) s)))
      else None)"
proof (cases "sep \<in> set s")
  case True
  let ?r = "tl (dropWhile (\<lambda>c. c \<noteq> sep) s)"
  have "tl (split_str sep s) = split_str sep ?r"
    using True by (simp add: tl_split_str)
  moreover have "split_str sep ?r = hd (split_str sep ?r) # tl (split_str sep ?r)"
    using split_str_nonempty[of sep ?r] by simp
  ultimately have "tl (split_str sep s) = takeWhile (\<lambda>c. c \<noteq> sep) ?r # tl (split_str sep ?r)"
    by (simp add: hd_split_str)
  then show ?thesis using True by (simp add: index_Suc_0)
next
  case False
  then show ?thesis by (simp add: index_Suc_0 tl_split_str)
qed

lemma review_path_eq:
  "review_path s = (if CHR '':'' \<in> set s then Some (second_piece s) else None)"
  by (simp add: review_path_def second_piece_def index_split_str_1)

lemma console_path_eq:
  "console_path s =
     (if CHR '':'' \<in> set s \<and> second_piece s \<noteq> [] then second_piece s else s)"
  by (simp add: console_path_def second_piece_def index_split_str_1)

lemma single_sep_rest:
  "count_list s sep = 1 \<Longrightarrow> sep \<notin> set (tl (dropWhile (\<lambda>c. c \<noteq> sep) s))"
proof (induction s)
  case Nil
  then show ?case by simp
next
  case (Cons a s)
  show ?case
  proof (cases "a = sep")
    case True
    with Cons.prems have "count_list s sep = 0" by simp
    then show ?thesis using True by (simp add: count_list_0_iff)
  next
    case False
    with Cons show ?thesis by simp
  qed
qed

lemma count_one_mem: "count_list s x = 1 \<Longrightarrow> x \<in> set s"
proof (rule ccontr)
  assume "count_list s x = 1" and "x \<notin> set s"
  then show False by (simp add: count_list_0_iff)
qed

lemma second_piece_single:
  assumes "count_list s CHR '':'' = 1"
  shows "second_piece s = after_first_colon s"
proof -
  let ?r = "tl (dropWhile (\<lambda>c. c \<noteq> CHR '':'') s)"
  have mem: "CHR '':'' \<in> set s"
    using assms by (rule count_one_mem)
  have "\<forall>c\<in>set ?r. c \<noteq> CHR '':''"
    using single_sep_rest[OF assms] by blast
  then have "takeWhile (\<lambda>c. c \<noteq> CHR '':'') ?r = ?r"
    by (rule takeWhile_eq_all_conv[THEN iffD2])
  then show ?thesis
    using mem by (simp only: second_piece_def after_first_colon_def if_True)
qed

section \<open>File path extraction\<close>

text \<open>
  Where the two scripts do extract the file path: for a component with exactly one
  \<open>:\<close> and some text after it, both give the substring after the \<open>:\<close>; for a
  component with no \<open>:\<close>, \<open>sonar-reviewer.js\<close> gives the whole component.
\<close>

lemma path_of_plain_component:
  "(count_list (component f) CHR '':'' = 1 \<and> after_first_colon (component f) \<noteq> [] \<longrightarrow>
      console_path (component f) = after_first_colon (component f) \<and>
      review_path (component f) = Some (after_first_colon (component f))) \<and>
   (CHR '':'' \<notin> set (component f) \<longrightarrow>
      console_path (component f) = after_first_colon (component f))"
proof (intro conjI impI)
  assume one: "count_list (component f) CHR '':'' = 1 \<and> after_first_colon (component f) \<noteq> []"
  then have mem: "CHR '':'' \<in> set (component f)"
    by (simp add: count_one_mem)
  have eq: "second_piece (component f) = after_first_colon (component f)"
    using one by (simp add: second_piece_single)
  show "console_path (component f) = after_first_colon (component f)"
    using one mem by (simp add: console_path_eq eq)
  show "review_path (component f) = Some (after_first_colon (component f))"
    using mem by (simp add: review_path_eq eq)
next
  assume "CHR '':'' \<notin> set (component f)"
  then show "console_path (component f) = after_first_colon (component f)"
    by (simp add: console_path_eq after_first_colon_def)
qed

lemma path_of_plain_component_examples:
  "console_path ''myproj:src/a/b.ts'' = ''src/a/b.ts'' \<and>
   review_path ''myproj:src/a/b.ts'' = Some ''src/a/b.ts'' \<and>
   console_path ''myproj'' = ''myproj''"
  by (simp add: console_path_eq review_path_eq second_piece_def)

text \<open>
  Claim C1: for every finding both scripts extract the substring of the component after
  its first \<open>:\<close>, also when the component has more than one \<open>:\<close>, and the whole
  component when it has none. The code misses this in two places. \<open>split(":")[1]\<close> is
  the text up to the second \<open>:\<close> only, so a project key with a \<open>:\<close> in it, or a
  path with one, is cut: \<open>org:proj:src/a.ts\<close> gives \<open>proj\<close>, the Maven-style key
  \<open>com.example:my-app:src/main/java/Foo.java\<close> gives \<open>my-app\<close>, and
  \<open>myproj:src/a:b.ts\<close> gives \<open>src/a\<close>, in both scripts. And \<open>reviewer.js\<close> has no
  \<open>|| issue.component\<close>, so for \<open>myproj\<close> its path is \<open>undefined\<close> where
  \<open>sonar-reviewer.js\<close> gives \<open>myproj\<close>.
\<close>

theorem extracted_path_failing_inputs:
  "after_first_colon ''org:proj:src/a.ts'' = ''proj:src/a.ts'' \<and>
   console_path ''org:proj:src/a.ts'' = ''proj'' \<and>
   review_path ''org:proj:src/a.ts'' = Some ''proj'' \<and>
   after_first_colon ''com.example:my-app:src/main/java/Foo.java'' =
     ''my-app:src/main/java/Foo.java'' \<and>
   console_path ''com.example:my-app:src/main/java/Foo.java'' = ''my-app'' \<and>
   review_path ''com.example:my-app:src/main/java/Foo.java'' = Some ''my-app'' \<and>
   after_first_colon ''myproj:src/a:b.ts'' = ''src/a:b.ts'' \<and>
   console_path ''myproj:src/a:b.ts'' = ''src/a'' \<and>
   review_path ''myproj:src/a:b.ts'' = Some ''src/a'' \<and>
   after_first_colon ''myproj'' = ''myproj'' \<and>
   console_path ''myproj'' = ''myproj'' \<and>
   review_path ''myproj'' = None"
  by (simp add: after_first_colon_def console_path_eq review_path_eq second_piece_def)

section \<open>withRetry\<close>

declare withRetry_loop.simps [simp del]

lemma invocations_append:
  "invocations (tr @ es) = invocations tr + invocations es"
  by (simp add: invocations_def)

lemma invocations_Nil: "invocations [] = 0"
  by (simp add: invocations_def)

lemma invocations_Cons:
  "invocations (e # es) = (if is_invoke e then Suc (invocations es) else invocations es)"
  by (simp add: invocations_def)

lemmas invocations_simps = invocations_append invocations_Cons invocations_Nil

lemma withRetry_loop_success:
  assumes "attempt \<le> retries opts" and "fn tr = (Inr v, tr1)"
  shows "withRetry_loop fn opts attempt lastErr tr = (Inr v, tr1)"
  using assms by (subst withRetry_loop.simps) simp

lemma withRetry_loop_give_up:
  assumes "attempt \<le> retries opts" and "fn tr = (Inl err, tr1)"
    and "\<not> is_conn err \<or> attempt = retries opts"
  shows "withRetry_loop fn opts attempt lastErr tr = (Inl err, tr1)"
  using assms by (subst withRetry_loop.simps) (auto simp: throw_last_def)

lemma withRetry_loop_again:
  assumes "attempt < retries opts" and "fn tr = (Inl err, tr1)" and "is_conn err"
  shows "withRetry_loop fn opts attempt lastErr tr =
         withRetry_loop fn opts (Suc attempt) (Some err)
           (tr1 @ [Sleep (baseDelayMs opts * 2 ^ attempt)])"
  using assms by (subst withRetry_loop.simps) simp

text \<open>
  The number of invocations of the operation never exceeds the attempts that are left:
  from \<open>attempt = 0\<close>, at most \<open>retries + 1\<close>.
\<close>

lemma withRetry_loop_invocations:
  "invocations (snd (withRetry_loop (operation outcome) opts attempt lastErr tr))
     \<le> invocations tr + (Suc (retries opts) - attempt)"
proof (induction "operation outcome :: 'a async" opts attempt lastErr tr
       rule: withRetry_loop.induct)
  case (1 opts attempt lastErr tr)
  show ?case
  proof (cases "attempt \<le> retries opts")
    case False
    then show ?thesis by (subst withRetry_loop.simps) simp
  next
    case le: True
    show ?thesis
    proof (cases "outcome (invocations tr)")
      case (Inr v)
      then have "withRetry_loop (operation outcome) opts attempt lastErr tr = (Inr v, tr @ [Invoke])"
        using le by (intro withRetry_loop_success) (simp_all add: operation_def)
      then show ?thesis using le by (simp add: invocations_simps)
    next
      case (Inl err)
      then have call: "operation outcome tr = (Inl err, tr @ [Invoke])"
        by (simp add: operation_def)
      show ?thesis
      proof (cases "\<not> is_conn err \<or> attempt = retries opts")
        case True
        then have "withRetry_loop (operation outcome) opts attempt lastErr tr = (Inl err, tr @ [Invoke])"
          using le call by (intro withRetry_loop_give_up)
        then show ?thesis using le by (simp add: invocations_simps)
      next
        case False
        then have lt: "attempt < retries opts" and conn: "is_conn err"
          using le by auto
        let ?tr2 = "tr @ [Invoke] @ [Sleep (baseDelayMs opts * 2 ^ attempt)]"
        have step: "withRetry_loop (operation outcome) opts attempt lastErr tr =
              withRetry_loop (operation outcome) opts (attempt + 1) (Some err) ?tr2"
          using withRetry_loop_again[where fn = "operation outcome" and lastErr = lastErr, OF lt call conn]
          by simp
        have "invocations (snd (withRetry_loop (operation outcome) opts (attempt + 1) (Some err) ?tr2))
                \<le> invocations ?tr2 + (Suc (retries opts) - (attempt + 1))"
          using "1"[OF le call[symmetric] refl False] by simp
        then show ?thesis
          using lt by (simp add: step invocations_simps)
      qed
    qed
  qed
qed

text \<open>Two failed attempts with a connection message, then a success, with \<open>retries = 2\<close>.\<close>

lemma two_failures_then_success:
  assumes "outcome (invocations tr) = Inl e1" and "is_conn e1"
    and "outcome (invocations tr + 1) = Inl e2" and "is_conn e2"
    and "outcome (invocations tr + 2) = Inr v"
  shows "withRetry (operation outcome) \<lparr>retries = 2, baseDelayMs = b\<rparr> tr =
           (Inr v, tr @ [Invoke, Sleep (b * 2 ^ 0), Invoke, Sleep (b * 2 ^ 1), Invoke])"
    and "invocations (snd (withRetry (operation outcome) \<lparr>retries = 2, baseDelayMs = b\<rparr> tr))
           = invocations tr + 3"
    and "invocations (snd (withRetry (operation any) \<lparr>retries = 2, baseDelayMs = b\<rparr> tr))
           \<le> invocations tr + 3"
proof -
  let ?opts = "\<lparr>retries = 2, baseDelayMs = b\<rparr>"
  let ?op = "operation outcome"
  let ?tr1 = "tr @ [Invoke] @ [Sleep (b * 2 ^ 0)]"
  let ?tr2 = "?tr1 @ [Invoke] @ [Sleep (b * 2 ^ 1)]"
  have c1: "?op tr = (Inl e1, tr @ [Invoke])"
    using assms(1) by (simp add: operation_def)
  have c2: "?op ?tr1 = (Inl e2, ?tr1 @ [Invoke])"
    using assms(3) by (simp add: operation_def invocations_def)
  have c3: "?op ?tr2 = (Inr v, ?tr2 @ [Invoke])"
    using assms(5) by (simp add: operation_def invocations_def)
  have "withRetry ?op ?opts tr = withRetry_loop ?op ?opts 0 None tr"
    by (simp add: withRetry_def)
  also have "\<dots> = withRetry_loop ?op ?opts (Suc 0) (Some e1) ?tr1"
    using withRetry_loop_again[of 0 ?opts ?op tr e1 "tr @ [Invoke]" None] c1 assms(2) by simp
  also have "\<dots> = withRetry_loop ?op ?opts (Suc (Suc 0)) (Some e2) ?tr2"
    using withRetry_loop_again[of "Suc 0" ?opts ?op ?tr1 e2 "?tr1 @ [Invoke]" "Some e1"] c2 assms(4)
    by simp
  also have "\<dots> = (Inr v, ?tr2 @ [Invoke])"
    using c3 by (intro withRetry_loop_success) simp_all
  finally show r: "withRetry ?op ?opts tr =
      (Inr v, tr @ [Invoke, Sleep (b * 2 ^ 0), Invoke, Sleep (b * 2 ^ 1), Invoke])"
    by simp
  show "invocations (snd (withRetry ?op ?opts tr)) = invocations tr + 3"
    unfolding r by (simp add: invocations_def)
  show "invocations (snd (withRetry (operation any) ?opts tr)) \<le> invocations tr + 3"
    using withRetry_loop_invocations[of any ?opts 0 None tr] by (simp add: withRetry_def)
qed

text \<open>
  Claim C3. An operation whose next two invocations fail with a connection message and
  whose third succeeds: with \<open>retries = 2\<close>, \<open>withRetry\<close> returns the value of the
  third invocation; the trace gains exactly three invocations with two waits between
  them, of \<open>baseDelayMs * 2^0\<close> and then \<open>baseDelayMs * 2^1\<close>. Whatever the operation
  does, \<open>retries = 2\<close> never gives more than three invocations.
\<close>

theorem withRetry_two_failures_then_success:
  assumes "outcome (invocations tr) = Inl e1" and "is_conn e1"
    and "outcome (invocations tr + 1) = Inl e2" and "is_conn e2"
    and "outcome (invocations tr + 2) = Inr v"
  shows "withRetry (operation outcome) \<lparr>retries = 2, baseDelayMs = b\<rparr> tr =
           (Inr v, tr @ [Invoke, Sleep (b * 2 ^ 0), Invoke, Sleep (b * 2 ^ 1), Invoke]) \<and>
         invocations (snd (withRetry (operation outcome) \<lparr>retries = 2, baseDelayMs = b\<rparr> tr))
           = invocations tr + 3 \<and>
         invocations (snd (withRetry (operation any) \<lparr>retries = 2, baseDelayMs = b\<rparr> tr))
           \<le> invocations tr + 3"
  using two_failures_then_success[OF assms] by blast

text \<open>
  An operation that fails twice with \<open>fetch failed\<close> in its message and then gives 7,
  with a base delay of 500 ms.
\<close>

theorem withRetry_two_failures_then_success_witness:
  "withRetry (operation (\<lambda>n. if n < 2 then Inl (Thrown (Some ''request to api: fetch failed''))
                               else Inr (7::nat)))
     \<lparr>retries = 2, baseDelayMs = 500\<rparr> [] =
     (Inr 7, [Invoke, Sleep 500, Invoke, Sleep 1000, Invoke])"
  using withRetry_two_failures_then_success
          [of "\<lambda>n. if n < 2 then Inl (Thrown (Some ''request to api: fetch failed'')) else Inr (7::nat)"
              "[]" "Thrown (Some ''request to api: fetch failed'')"
              "Thrown (Some ''request to api: fetch failed'')" 7 500 "\<lambda>n. Inr (0::nat)"]
  by (simp add: is_conn_def invocations_def)

text \<open>
  Claim C4. An operation whose invocation fails with a message that names no connection
  failure: \<open>withRetry\<close> invokes it once, waits for nothing and throws that same
  failure, whatever the options are.
\<close>

theorem withRetry_not_transient:
  assumes "outcome (invocations tr) = Inl err" and "\<not> is_conn err"
  shows "withRetry (operation outcome) opts tr = (Inl err, tr @ [Invoke]) \<and>
         invocations (snd (withRetry (operation outcome) opts tr)) = invocations tr + 1"
proof -
  have "operation outcome tr = (Inl err, tr @ [Invoke])"
    using assms(1) by (simp add: operation_def)
  then have "withRetry_loop (operation outcome) opts 0 None tr = (Inl err, tr @ [Invoke])"
    using assms(2) by (intro withRetry_loop_give_up) simp_all
  then show ?thesis
    by (simp add: withRetry_def invocations_simps)
qed

text \<open>An operation that always fails with \<open>401 Unauthorized\<close>, with five retries allowed.\<close>

theorem withRetry_not_transient_witness:
  "withRetry (operation (\<lambda>n. (Inl (Thrown (Some ''401 Unauthorized'')) :: thrown + nat)))
     \<lparr>retries = 5, baseDelayMs = 500\<rparr> [] =
     (Inl (Thrown (Some ''401 Unauthorized'')), [Invoke])"
  using withRetry_not_transient
          [of "\<lambda>n. (Inl (Thrown (Some ''401 Unauthorized'')) :: thrown + nat)" "[]"
              "Thrown (Some ''401 Unauthorized'')" "\<lparr>retries = 5, baseDelayMs = 500\<rparr>"]
  by (simp add: is_conn_def invocations_def)

section \<open>fetchSonarIssues\<close>

lemma fetchSonarIssues_trace: "snd (fetchSonarIssues env tr) = tr @ [Fetch (issues_url env)]"
  by (simp add: fetchSonarIssues_def Let_def split: sum.splits json_body.splits option.splits)

lemma fetchSonarIssues_result: "fst (fetchSonarIssues env tr) = fst (fetchSonarIssues env [])"
  by (simp add: fetchSonarIssues_def Let_def split: sum.splits json_body.splits option.splits)

text \<open>
  Claim C5, as amended. Given the HTTP response: with a non-success status the function
  throws an error whose message carries the status text; with a success status it
  returns the \<open>issues\<close> array of the parsed body as it is, or the empty list when the
  field is absent. It throws in exactly three cases: a non-success status, a body that
  \<open>res.json()\<close> rejects, and a body that is \<open>null\<close>.
\<close>

theorem fetchSonarIssues_outcome:
  assumes "fetch_outcome env = Inr res"
  shows "(\<not> ok res \<longrightarrow>
            fst (fetchSonarIssues env tr) =
              Inl (Thrown (Some (''SonarQube API error: '' @ statusText res)))) \<and>
         (ok res \<and> body res = JsonValue (Some issues) \<longrightarrow>
            fst (fetchSonarIssues env tr) = Inr issues) \<and>
         (ok res \<and> body res = JsonValue None \<longrightarrow> fst (fetchSonarIssues env tr) = Inr []) \<and>
         (ok res \<and> body res = NotJson err \<longrightarrow> fst (fetchSonarIssues env tr) = Inl err) \<and>
         (isl (fst (fetchSonarIssues env tr)) \<longleftrightarrow>
            \<not> ok res \<or> (\<exists>e. body res = NotJson e) \<or> body res = JsonNull)"
  using assms
  by (cases "body res")
     (auto simp: fetchSonarIssues_def Let_def split: option.splits)

text \<open>A 503 response, and a 200 response with three findings.\<close>

theorem fetchSonarIssues_outcome_witness:
  "fst (fetchSonarIssues
          (example_env (Inr \<lparr>ok = False, statusText = ''Service Unavailable'', body = JsonNull\<rparr>)
             (\<lambda>n p. Inl (Thrown None))) []) =
     Inl (Thrown (Some ''SonarQube API error: Service Unavailable'')) \<and>
   fst (fetchSonarIssues
          (example_env (Inr (ok_response [finding_c, finding_a, finding_b]))
             (\<lambda>n p. Inl (Thrown None))) []) =
     Inr [finding_c, finding_a, finding_b]"
  using fetchSonarIssues_outcome
          [of "example_env (Inr \<lparr>ok = False, statusText = ''Service Unavailable'', body = JsonNull\<rparr>)
                 (\<lambda>n p. Inl (Thrown None))"
              "\<lparr>ok = False, statusText = ''Service Unavailable'', body = JsonNull\<rparr>" "[]" "[]"
              "Thrown None"]
        fetchSonarIssues_outcome
          [of "example_env (Inr (ok_response [finding_c, finding_a, finding_b]))
                 (\<lambda>n p. Inl (Thrown None))"
              "ok_response [finding_c, finding_a, finding_b]" "[]"
              "[finding_c, finding_a, finding_b]" "Thrown None"]
  by (simp add: example_env_def ok_response_def)

text \<open>
  Claim C5 as stated fails for a response with a success status whose body is not JSON
  (an HTML page, say): \<open>res.json()\<close> rejects and the function throws.
\<close>

theorem fetchSonarIssues_counterexample:
  "ok \<lparr>ok = True, statusText = ''OK'', body = NotJson (Thrown (Some ''Unexpected token <''))\<rparr> \<and>
   fst (fetchSonarIssues
          (example_env
             (Inr \<lparr>ok = True, statusText = ''OK'',
                   body = NotJson (Thrown (Some ''Unexpected token <''))\<rparr>)
             (\<lambda>n p. Inl (Thrown None))) []) =
     Inl (Thrown (Some ''Unexpected token <''))"
  by (simp add: fetchSonarIssues_def example_env_def)

section \<open>The line of a finding\<close>

lemma prompt_without_line:
  assumes "\<not> truthy (line f)"
  shows "build_prompt f =
     nl @ ''You are a code reviewer. Summarize this SonarQube issue into a clear GitHub PR comment.'' @
     nl @ ''Explain in simple language, give reasoning, and suggest a fix.'' @
     nl @
     nl @ ''Issue:'' @
     nl @ ''Rule: '' @ rule f @
     nl @ ''Severity: '' @ severity f @
     nl @ ''File: '' @ component f @
     nl @ ''Line: N/A'' @
     nl @ ''Message: '' @ message f @
     nl @ ''  ''"
  using assms by (simp add: build_prompt_def)

lemma postComment_without_line:
  assumes "\<not> truthy ln"
  shows "postComment env c p ln tr =
     (Inr (), tr @ CreateReviewComment c p (JNum 1) #
                (case comment_outcome env (comment_calls tr) of
                   Inl err \<Rightarrow> [ConsoleError (CommentError err)]
                 | Inr u \<Rightarrow> []))"
  using assms by (simp add: postComment_def Let_def split: sum.splits)

lemma enhanceWithGPT_reviewer_cases:
  "\<exists>c es. enhanceWithGPT_reviewer env f tr = (Inr c, tr @ ChatCreate (build_prompt f) # es) \<and>
          (es = [] \<or> (\<exists>err. es = [ConsoleError (GptError err)] \<and> c = message f))"
  by (auto simp: enhanceWithGPT_reviewer_def chat_create_def gpt_fallback_def
           split: sum.splits prod.splits)

lemma comment_calls_append: "comment_calls (tr @ es) = comment_calls tr + comment_calls es"
  by (simp add: comment_calls_def)

lemma review_issue_without_line:
  assumes "\<not> truthy (line f)"
  shows "\<exists>c. filter is_comment (snd (review_issue env f tr)) =
           filter is_comment tr @ [CreateReviewComment c (review_path (component f)) (JNum 1)]"
proof -
  obtain c es where e: "enhanceWithGPT_reviewer env f tr = (Inr c, tr @ ChatCreate (build_prompt f) # es)"
    and es: "es = [] \<or> (\<exists>err. es = [ConsoleError (GptError err)] \<and> c = message f)"
    using enhanceWithGPT_reviewer_cases by blast
  have "filter is_comment es = []" using es by auto
  then have "filter is_comment (snd (review_issue env f tr)) =
        filter is_comment tr @ [CreateReviewComment c (review_path (component f)) (JNum 1)]"
    by (simp add: review_issue_def e postComment_without_line[OF assms] split: sum.splits)
  then show ?thesis ..
qed

text \<open>
  Claim C7. For a finding with no \<open>line\<close>, the prompt has the line \<open>Line: N/A\<close>, and
  the review-comment request of \<open>reviewer.js\<close> for that finding is made with line 1.
\<close>

theorem absent_line:
  assumes "line f = JUndefined"
  shows "build_prompt f =
           nl @ ''You are a code reviewer. Summarize this SonarQube issue into a clear GitHub PR comment.'' @
           nl @ ''Explain in simple language, give reasoning, and suggest a fix.'' @
           nl @
           nl @ ''Issue:'' @
           nl @ ''Rule: '' @ rule f @
           nl @ ''Severity: '' @ severity f @
           nl @ ''File: '' @ component f @
           nl @ ''Line: N/A'' @
           nl @ ''Message: '' @ message f @
           nl @ ''  '' \<and>
         fst (postComment env c p (line f) tr) = Inr () \<and>
         filter is_comment (snd (postComment env c p (line f) tr)) =
           filter is_comment tr @ [CreateReviewComment c p (JNum 1)] \<and>
         (\<exists>c'. filter is_comment (snd (review_issue env f tr)) =
            filter is_comment tr @ [CreateReviewComment c' (review_path (component f)) (JNum 1)])"
proof -
  have falsy: "\<not> truthy (line f)" using assms by simp
  show ?thesis
    using prompt_without_line[OF falsy] review_issue_without_line[OF falsy]
    by (simp add: postComment_without_line[OF falsy] split: sum.splits)
qed

theorem absent_line_witness:
  "includes_str (build_prompt finding_a) ''Line: N/A'' \<and>
   snd (review_issue (example_env (Inr (ok_response [finding_a]))
                        (\<lambda>n p. Inr (ChatResponse [Some ''Drop the import.''])))
          finding_a []) =
     [ChatCreate (build_prompt finding_a),
      ConsoleLog (LogComment ''Drop the import.''),
      CreateReviewComment ''Drop the import.'' (Some ''src/a/b.ts'') (JNum 1)]"
proof -
  have l: "line finding_a = JUndefined" by (simp add: finding_a_def)
  have "includes_str (build_prompt finding_a) ''Line: N/A''"
    using absent_line[OF l, of "example_env (Inr (ok_response [finding_a])) (\<lambda>n p. Inl (Thrown None))"
                        "''c''" None "[]"]
    by (simp add: finding_a_def nl_def)
  moreover have "snd (review_issue (example_env (Inr (ok_response [finding_a]))
                        (\<lambda>n p. Inr (ChatResponse [Some ''Drop the import.''])))
          finding_a []) =
     [ChatCreate (build_prompt finding_a),
      ConsoleLog (LogComment ''Drop the import.''),
      CreateReviewComment ''Drop the import.'' (Some ''src/a/b.ts'') (JNum 1)]"
    by (simp add: review_issue_def enhanceWithGPT_reviewer_def chat_create_def completion_text_def
          index_def trim_def is_space_def postComment_def comment_calls_def chat_calls_def
          example_env_def review_path_eq second_piece_def finding_a_def)
  ultimately show ?thesis by simp
qed

lemma gpt_fallback_line: "gpt_fallback (f\<lparr>line := l\<rparr>) = gpt_fallback f"
  by (simp add: fun_eq_iff gpt_fallback_def)

lemma enhanceWithGPT_reviewer_line:
  assumes "\<not> truthy (line f)"
  shows "enhanceWithGPT_reviewer env (f\<lparr>line := JUndefined\<rparr>) tr = enhanceWithGPT_reviewer env f tr"
proof -
  have "build_prompt (f\<lparr>line := JUndefined\<rparr>) = build_prompt f"
    using assms by (simp add: build_prompt_def)
  then show ?thesis
    by (simp add: enhanceWithGPT_reviewer_def gpt_fallback_line split: prod.splits sum.splits)
qed

text \<open>
  Claim C10. A finding whose \<open>line\<close> is present and falsy (0, \<open>null\<close>, \<open>false\<close>, the
  empty string) is treated as a finding with no \<open>line\<close>: the prompt, the console
  lines of \<open>sonar-reviewer.js\<close> and the whole iteration of \<open>reviewer.js\<close> are the
  same as when the field is absent, so the prompt and the console show \<open>N/A\<close> and the
  review comment goes to line 1.
\<close>

theorem falsy_line:
  assumes "\<not> truthy (line f)"
  shows "build_prompt f = build_prompt (f\<lparr>line := JUndefined\<rparr>) \<and>
         console_header f = console_header (f\<lparr>line := JUndefined\<rparr>) \<and>
         console_header f ! 2 = ConsoleLog (LogLine ''N/A'') \<and>
         postComment env c p (line f) tr = postComment env c p JUndefined tr \<and>
         review_issue env f tr = review_issue env (f\<lparr>line := JUndefined\<rparr>) tr \<and>
         (\<exists>c'. filter is_comment (snd (review_issue env f tr)) =
            filter is_comment tr @ [CreateReviewComment c' (review_path (component f)) (JNum 1)])"
proof -
  have p: "build_prompt f = build_prompt (f\<lparr>line := JUndefined\<rparr>)"
    using assms by (simp add: build_prompt_def)
  have h: "console_header f = console_header (f\<lparr>line := JUndefined\<rparr>)"
    using assms by (simp add: console_header_def)
  have n: "console_header f ! 2 = ConsoleLog (LogLine ''N/A'')"
    using assms by (simp add: console_header_def)
  have c: "postComment env c p (line f) tr = postComment env c p JUndefined tr"
    using assms by (simp add: postComment_def)
  have r: "review_issue env f tr = review_issue env (f\<lparr>line := JUndefined\<rparr>) tr"
    using assms
    by (simp add: review_issue_def enhanceWithGPT_reviewer_line[OF assms] postComment_def
          split: prod.splits sum.splits)
  show ?thesis
    using p h n c r review_issue_without_line[OF assms] by blast
qed

text \<open>A finding with \<open>line = 0\<close>, and a request for review comments that fails.\<close>

theorem falsy_line_witness:
  "includes_str (build_prompt finding_b) ''Line: N/A'' \<and>
   console_header finding_b ! 2 = ConsoleLog (LogLine ''N/A'') \<and>
   snd (review_issue
          ((example_env (Inr (ok_response [finding_b]))
              (\<lambda>n p. Inr (ChatResponse [Some ''Delete the dead code.''])))
           \<lparr>comment_outcome := (\<lambda>n. Inl (Thrown (Some ''Validation Failed'')))\<rparr>)
          finding_b []) =
     [ChatCreate (build_prompt finding_b),
      ConsoleLog (LogComment ''Delete the dead code.''),
      CreateReviewComment ''Delete the dead code.'' (Some ''src/c.ts'') (JNum 1),
      ConsoleError (CommentError (Thrown (Some ''Validation Failed'')))]"
proof -
  have l: "\<not> truthy (line finding_b)" by (simp add: finding_b_def)
  have "console_header finding_b ! 2 = ConsoleLog (LogLine ''N/A'')"
    by (rule falsy_line[OF l, of "example_env (Inr (ok_response [])) (\<lambda>n p. Inl (Thrown None))"
                          "''c''" None "[]", THEN conjunct2, THEN conjunct2, THEN conjunct1])
  moreover have "includes_str (build_prompt finding_b) ''Line: N/A''"
    unfolding prompt_without_line[OF l] by (simp add: finding_b_def nl_def)
  moreover have "snd (review_issue
          ((example_env (Inr (ok_response [finding_b]))
              (\<lambda>n p. Inr (ChatResponse [Some ''Delete the dead code.''])))
           \<lparr>comment_outcome := (\<lambda>n. Inl (Thrown (Some ''Validation Failed'')))\<rparr>)
          finding_b []) =
     [ChatCreate (build_prompt finding_b),
      ConsoleLog (LogComment ''Delete the dead code.''),
      CreateReviewComment ''Delete the dead code.'' (Some ''src/c.ts'') (JNum 1),
      ConsoleError (CommentError (Thrown (Some ''Validation Failed'')))]"
    by (simp add: review_issue_def enhanceWithGPT_reviewer_def chat_create_def completion_text_def
          index_def trim_def is_space_def postComment_def comment_calls_def chat_calls_def
          example_env_def review_path_eq second_piece_def finding_b_def)
  ultimately show ?thesis by simp
qed

section \<open>A run with no findings\<close>

lemma chat_calls_append: "chat_calls (tr @ es) = chat_calls tr + chat_calls es"
  by (simp add: chat_calls_def)

text \<open>
  Claim C9. When the fetch returns the empty list, both scripts end with status 0; the
  trace gains the request to SonarQube (and, in \<open>sonar-reviewer.js\<close>, three console
  lines), no chat-completion request and no review-comment request.
\<close>

theorem run_zero_findings:
  assumes "fst (fetchSonarIssues env []) = Inr []"
  shows "main (run_reviewer env) tr = (0, tr @ [Fetch (issues_url env)]) \<and>
         main (run_sonar env) tr =
           (0, tr @ [ConsoleLog LogFetching, Fetch (issues_url env),
                     ConsoleLog (LogFound 0), ConsoleLog LogNoIssues]) \<and>
         chat_calls (snd (main (run_reviewer env) tr)) = chat_calls tr \<and>
         comment_calls (snd (main (run_reviewer env) tr)) = comment_calls tr \<and>
         chat_calls (snd (main (run_sonar env) tr)) = chat_calls tr \<and>
         comment_calls (snd (main (run_sonar env) tr)) = comment_calls tr"
proof -
  have f: "fetchSonarIssues env t = (Inr [], t @ [Fetch (issues_url env)])" for t
    using assms fetchSonarIssues_result[of env t] fetchSonarIssues_trace[of env t]
    by (simp add: prod_eq_iff)
  have r: "main (run_reviewer env) tr = (0, tr @ [Fetch (issues_url env)])"
    by (simp add: main_def run_reviewer_def f)
  have s: "main (run_sonar env) tr =
           (0, tr @ [ConsoleLog LogFetching, Fetch (issues_url env),
                     ConsoleLog (LogFound 0), ConsoleLog LogNoIssues])"
    by (simp add: main_def run_sonar_def f)
  show ?thesis
    unfolding r s by (simp add: chat_calls_def comment_calls_def)
qed

text \<open>A response with an empty \<open>issues\<close> array.\<close>

theorem run_zero_findings_witness:
  "main (run_sonar (example_env (Inr (ok_response [])) (\<lambda>n p. Inl (Thrown None)))) [] =
     (0, [ConsoleLog LogFetching,
          Fetch ''http://localhost:9000/api/issues/search?componentKeys=myproj&resolved=false'',
          ConsoleLog (LogFound 0), ConsoleLog LogNoIssues]) \<and>
   main (run_reviewer (example_env (Inr (ok_response [])) (\<lambda>n p. Inl (Thrown None)))) [] =
     (0, [Fetch ''http://localhost:9000/api/issues/search?componentKeys=myproj&resolved=false''])"
proof -
  have "fst (fetchSonarIssues (example_env (Inr (ok_response [])) (\<lambda>n p. Inl (Thrown None))) []) = Inr []"
    by (simp add: fetchSonarIssues_def example_env_def ok_response_def)
  from run_zero_findings[OF this, of "[]"] show ?thesis
    by (simp add: issues_url_def example_env_def)
qed

section \<open>enhanceWithGPT\<close>

lemma chat_calls_Nil: "chat_calls [] = 0"
  by (simp add: chat_calls_def)

lemma chat_calls_Cons:
  "chat_calls (e # es) = (if is_chat e then Suc (chat_calls es) else chat_calls es)"
  by (simp add: chat_calls_def)

lemmas chat_calls_simps = chat_calls_append chat_calls_Cons chat_calls_Nil

text \<open>\<open>trim\<close> removes white space at both ends and nothing else.\<close>

lemma rev_take_drop:
  "rev (dropWhile P (rev xs)) @ rev (takeWhile P (rev xs)) = xs"
proof -
  have "rev (takeWhile P (rev xs) @ dropWhile P (rev xs)) = xs"
    by (simp only: takeWhile_dropWhile_id rev_rev_ident)
  then show ?thesis by (simp only: rev_append)
qed

lemma list_all_takeWhile: "list_all P (takeWhile P xs)"
  by (induction xs) auto

lemma trim_middle:
  "dropWhile is_space s = trim s @ rev (takeWhile is_space (rev (dropWhile is_space s)))"
  unfolding trim_def by (rule rev_take_drop[symmetric])

lemma trim_splits:
  "\<exists>pre post. s = pre @ trim s @ post \<and> list_all is_space pre \<and> list_all is_space post"
proof -
  let ?pre = "takeWhile is_space s"
  let ?post = "rev (takeWhile is_space (rev (dropWhile is_space s)))"
  have "s = ?pre @ dropWhile is_space s" by simp
  then have "s = ?pre @ trim s @ ?post"
    using trim_middle[of s] by simp
  moreover have "list_all is_space ?pre"
    by (rule list_all_takeWhile)
  moreover have "list_all is_space ?post"
    using list_all_takeWhile[of is_space "rev (dropWhile is_space s)"] by (simp add: list_all_iff)
  ultimately show ?thesis by blast
qed

lemma trim_ends:
  assumes "trim s \<noteq> []"
  shows "\<not> is_space (hd (trim s)) \<and> \<not> is_space (last (trim s))"
proof -
  let ?r = "dropWhile is_space (rev (dropWhile is_space s))"
  have r: "?r \<noteq> []" using assms by (simp add: trim_def)
  then have "\<not> is_space (hd ?r)" by (rule hd_dropWhile)
  then have l: "\<not> is_space (last (trim s))"
    using r by (simp add: trim_def last_rev)
  have d: "dropWhile is_space s \<noteq> []"
  proof
    assume e: "dropWhile is_space s = []"
    have "trim s = []" unfolding trim_def e by simp
    with assms show False by simp
  qed
  then have h: "\<not> is_space (hd (dropWhile is_space s))" by (rule hd_dropWhile)
  have "hd (dropWhile is_space s) = hd (trim s @ rev (takeWhile is_space (rev (dropWhile is_space s))))"
    using trim_middle[of s] by simp
  also have "\<dots> = hd (trim s)"
    using assms by (rule hd_append2)
  finally show ?thesis using h l by simp
qed

lemma completion_text_first:
  assumes "choices resp = Some content # others"
  shows "completion_text resp = Inr (trim content)"
  using assms by (simp add: completion_text_def index_def)

text \<open>The two scripts, when the request (with its retries) has failed, and when it has succeeded.\<close>

lemma enhanceWithGPT_reviewer_failed:
  assumes "chat_outcome env (chat_calls tr) (build_prompt f) = Inl err"
  shows "enhanceWithGPT_reviewer env f tr =
           (Inr (message f), tr @ [ChatCreate (build_prompt f), ConsoleError (GptError err)])"
  using assms by (simp add: enhanceWithGPT_reviewer_def chat_create_def gpt_fallback_def)

lemma enhanceWithGPT_sonar_failed:
  assumes "withRetry (chat_create env (build_prompt f)) default_options tr = (Inl err, tr1)"
  shows "enhanceWithGPT_sonar env f tr = (Inr (message f), tr1 @ [ConsoleError (GptError err)])"
  using assms by (simp add: enhanceWithGPT_sonar_def gpt_fallback_def)

lemma enhanceWithGPT_sonar_succeeded:
  assumes "withRetry (chat_create env (build_prompt f)) default_options tr = (Inr resp, tr1)"
    and "choices resp = Some content # others"
  shows "enhanceWithGPT_sonar env f tr = (Inr (trim content), tr1)"
  using assms by (simp add: enhanceWithGPT_sonar_def completion_text_first)

lemma enhanceWithGPT_total:
  "\<not> isl (fst (enhanceWithGPT_reviewer env f tr))" "\<not> isl (fst (enhanceWithGPT_sonar env f tr))"
  by (auto simp: enhanceWithGPT_reviewer_def enhanceWithGPT_sonar_def gpt_fallback_def
           split: prod.splits sum.splits)

text \<open>Three attempts that all fail with a connection message, with the default options.\<close>

lemma withRetry_chat_exhausted:
  assumes "chat_outcome env (chat_calls tr) p = Inl e1" and "is_conn e1"
    and "chat_outcome env (chat_calls tr + 1) p = Inl e2" and "is_conn e2"
    and "chat_outcome env (chat_calls tr + 2) p = Inl e3"
  shows "withRetry (chat_create env p) default_options tr =
           (Inl e3, tr @ [ChatCreate p, Sleep 500, ChatCreate p, Sleep 1000, ChatCreate p])"
proof -
  let ?op = "chat_create env p"
  let ?tr1 = "tr @ [ChatCreate p] @ [Sleep (500 * 2 ^ 0)]"
  let ?tr2 = "?tr1 @ [ChatCreate p] @ [Sleep (500 * 2 ^ 1)]"
  have c1: "?op tr = (Inl e1, tr @ [ChatCreate p])"
    using assms(1) by (simp add: chat_create_def)
  have c2: "?op ?tr1 = (Inl e2, ?tr1 @ [ChatCreate p])"
    using assms(3) by (simp add: chat_create_def chat_calls_simps)
  have c3: "?op ?tr2 = (Inl e3, ?tr2 @ [ChatCreate p])"
    using assms(5) by (simp add: chat_create_def chat_calls_simps)
  have "withRetry ?op default_options tr = withRetry_loop ?op default_options 0 None tr"
    by (simp add: withRetry_def)
  also have "\<dots> = withRetry_loop ?op default_options (Suc 0) (Some e1) ?tr1"
    using withRetry_loop_again[of 0 default_options ?op tr e1 "tr @ [ChatCreate p]" None] c1 assms(2)
    by (simp add: default_options_def)
  also have "\<dots> = withRetry_loop ?op default_options (Suc (Suc 0)) (Some e2) ?tr2"
    using withRetry_loop_again[of "Suc 0" default_options ?op ?tr1 e2 "?tr1 @ [ChatCreate p]" "Some e1"]
          c2 assms(4)
    by (simp add: default_options_def)
  also have "\<dots> = (Inl e3, ?tr2 @ [ChatCreate p])"
    using c3 by (intro withRetry_loop_give_up) (simp_all add: default_options_def)
  finally show ?thesis by simp
qed

lemma withRetry_chat_not_transient:
  assumes "chat_outcome env (chat_calls tr) p = Inl e1" and "\<not> is_conn e1"
  shows "withRetry (chat_create env p) default_options tr = (Inl e1, tr @ [ChatCreate p])"
proof -
  have "chat_create env p tr = (Inl e1, tr @ [ChatCreate p])"
    using assms(1) by (simp add: chat_create_def)
  then have "withRetry_loop (chat_create env p) default_options 0 None tr = (Inl e1, tr @ [ChatCreate p])"
    using assms(2) by (intro withRetry_loop_give_up) simp_all
  then show ?thesis by (simp add: withRetry_def)
qed

lemma withRetry_chat_first_success:
  assumes "chat_outcome env (chat_calls tr) p = Inr resp"
  shows "withRetry (chat_create env p) default_options tr = (Inr resp, tr @ [ChatCreate p])"
proof -
  have "chat_create env p tr = (Inr resp, tr @ [ChatCreate p])"
    using assms(1) by (simp add: chat_create_def)
  then have "withRetry_loop (chat_create env p) default_options 0 None tr = (Inr resp, tr @ [ChatCreate p])"
    by (intro withRetry_loop_success) simp_all
  then show ?thesis by (simp add: withRetry_def)
qed

text \<open>
  Claim C2. When the chat-completion request fails (in \<open>reviewer.js\<close> the one request;
  in \<open>sonar-reviewer.js\<close> the request with its retries, so after a failure without a
  connection message or after three failures), \<open>enhanceWithGPT\<close> returns the message of
  the finding unchanged. In no case does it throw.
\<close>

theorem enrich_failure_returns_message:
  "(chat_outcome env (chat_calls tr) (build_prompt f) = Inl err \<longrightarrow>
      fst (enhanceWithGPT_reviewer env f tr) = Inr (message f)) \<and>
   (fst (withRetry (chat_create env (build_prompt f)) default_options tr) = Inl err \<longrightarrow>
      fst (enhanceWithGPT_sonar env f tr) = Inr (message f)) \<and>
   (chat_outcome env (chat_calls tr) (build_prompt f) = Inl e1 \<and> \<not> is_conn e1 \<longrightarrow>
      enhanceWithGPT_sonar env f tr =
        (Inr (message f), tr @ [ChatCreate (build_prompt f), ConsoleError (GptError e1)])) \<and>
   (chat_outcome env (chat_calls tr) (build_prompt f) = Inl e1 \<and> is_conn e1 \<and>
    chat_outcome env (chat_calls tr + 1) (build_prompt f) = Inl e2 \<and> is_conn e2 \<and>
    chat_outcome env (chat_calls tr + 2) (build_prompt f) = Inl e3 \<longrightarrow>
      enhanceWithGPT_sonar env f tr =
        (Inr (message f),
         tr @ [ChatCreate (build_prompt f), Sleep 500, ChatCreate (build_prompt f), Sleep 1000,
               ChatCreate (build_prompt f), ConsoleError (GptError e3)])) \<and>
   \<not> isl (fst (enhanceWithGPT_reviewer env f tr)) \<and>
   \<not> isl (fst (enhanceWithGPT_sonar env f tr))"
proof (intro conjI impI)
  assume "chat_outcome env (chat_calls tr) (build_prompt f) = Inl err"
  then show "fst (enhanceWithGPT_reviewer env f tr) = Inr (message f)"
    by (simp add: enhanceWithGPT_reviewer_failed)
next
  assume a: "fst (withRetry (chat_create env (build_prompt f)) default_options tr) = Inl err"
  obtain tr1 where "withRetry (chat_create env (build_prompt f)) default_options tr = (Inl err, tr1)"
    using a by (cases "withRetry (chat_create env (build_prompt f)) default_options tr") simp
  then show "fst (enhanceWithGPT_sonar env f tr) = Inr (message f)"
    by (simp add: enhanceWithGPT_sonar_failed)
next
  assume "chat_outcome env (chat_calls tr) (build_prompt f) = Inl e1 \<and> \<not> is_conn e1"
  then have "withRetry (chat_create env (build_prompt f)) default_options tr =
               (Inl e1, tr @ [ChatCreate (build_prompt f)])"
    by (simp add: withRetry_chat_not_transient)
  then show "enhanceWithGPT_sonar env f tr =
        (Inr (message f), tr @ [ChatCreate (build_prompt f), ConsoleError (GptError e1)])"
    by (simp add: enhanceWithGPT_sonar_failed)
next
  assume a: "chat_outcome env (chat_calls tr) (build_prompt f) = Inl e1 \<and> is_conn e1 \<and>
    chat_outcome env (chat_calls tr + 1) (build_prompt f) = Inl e2 \<and> is_conn e2 \<and>
    chat_outcome env (chat_calls tr + 2) (build_prompt f) = Inl e3"
  have "withRetry (chat_create env (build_prompt f)) default_options tr =
           (Inl e3, tr @ [ChatCreate (build_prompt f), Sleep 500, ChatCreate (build_prompt f),
                          Sleep 1000, ChatCreate (build_prompt f)])"
    by (rule withRetry_chat_exhausted[of env tr "build_prompt f" e1 e2 e3]) (use a in blast)+
  then show "enhanceWithGPT_sonar env f tr =
        (Inr (message f),
         tr @ [ChatCreate (build_prompt f), Sleep 500, ChatCreate (build_prompt f), Sleep 1000,
               ChatCreate (build_prompt f), ConsoleError (GptError e3)])"
    by (simp add: enhanceWithGPT_sonar_failed)
qed (rule enhanceWithGPT_total)+

text \<open>A service that is never reached: every request fails with \<open>ETIMEDOUT\<close>.\<close>

theorem enrich_failure_returns_message_witness:
  "enhanceWithGPT_sonar
     (example_env (Inr (ok_response [finding_c])) (\<lambda>n p. Inl (Thrown (Some ''connect ETIMEDOUT''))))
     finding_c [] =
     (Inr ''Remove this useless assignment.'',
      [ChatCreate (build_prompt finding_c), Sleep 500, ChatCreate (build_prompt finding_c),
       Sleep 1000, ChatCreate (build_prompt finding_c),
       ConsoleError (GptError (Thrown (Some ''connect ETIMEDOUT'')))]) \<and>
   fst (enhanceWithGPT_reviewer
     (example_env (Inr (ok_response [finding_c])) (\<lambda>n p. Inl (Thrown (Some ''connect ETIMEDOUT''))))
     finding_c []) = Inr ''Remove this useless assignment.''"
  using enrich_failure_returns_message
          [of "example_env (Inr (ok_response [finding_c])) (\<lambda>n p. Inl (Thrown (Some ''connect ETIMEDOUT'')))"
              "[]" finding_c "Thrown (Some ''connect ETIMEDOUT'')" "Thrown (Some ''connect ETIMEDOUT'')"
              "Thrown (Some ''connect ETIMEDOUT'')" "Thrown (Some ''connect ETIMEDOUT'')"]
  by (simp add: example_env_def is_conn_def finding_c_def)

lemma comment_calls_Nil: "comment_calls [] = 0"
  by (simp add: comment_calls_def)

lemma comment_calls_Cons:
  "comment_calls (e # es) = (if is_comment e then Suc (comment_calls es) else comment_calls es)"
  by (simp add: comment_calls_def)

lemmas comment_calls_simps = comment_calls_append comment_calls_Cons comment_calls_Nil

lemma review_issue_succeeded:
  assumes "chat_outcome env (chat_calls tr) (build_prompt f) = Inr resp"
    and "choices resp = Some content # others"
  shows "review_issue env f tr =
     (Inr (),
      tr @ [ChatCreate (build_prompt f), ConsoleLog (LogComment (trim content)),
            CreateReviewComment (trim content) (review_path (component f))
              (if truthy (line f) then line f else JNum 1)] @
           (case comment_outcome env (comment_calls tr) of
              Inl e \<Rightarrow> [ConsoleError (CommentError e)]
            | Inr u \<Rightarrow> []))"
  using assms
  by (simp add: review_issue_def enhanceWithGPT_reviewer_def chat_create_def completion_text_first
        postComment_def comment_calls_simps split: sum.splits)

lemma completion_text_no_choice:
  assumes "choices resp = []"
  shows "completion_text resp = Inl undefined_property_error"
  using assms by (simp add: completion_text_def index_def)

lemma completion_text_null:
  assumes "choices resp = None # others"
  shows "completion_text resp = Inl null_property_error"
  using assms by (simp add: completion_text_def index_def)

lemma review_issue_fallback:
  assumes "chat_outcome env (chat_calls tr) (build_prompt f) = Inr resp"
    and "completion_text resp = Inl err"
  shows "enhanceWithGPT_reviewer env f tr =
           (Inr (message f), tr @ [ChatCreate (build_prompt f), ConsoleError (GptError err)])"
    and "review_issue env f tr =
     (Inr (),
      tr @ [ChatCreate (build_prompt f), ConsoleError (GptError err),
            ConsoleLog (LogComment (message f)),
            CreateReviewComment (message f) (review_path (component f))
              (if truthy (line f) then line f else JNum 1)] @
           (case comment_outcome env (comment_calls tr) of
              Inl e \<Rightarrow> [ConsoleError (CommentError e)]
            | Inr u \<Rightarrow> []))"
  using assms
  by (simp_all add: review_issue_def enhanceWithGPT_reviewer_def chat_create_def gpt_fallback_def
        postComment_def comment_calls_simps split: sum.splits)

lemma console_issue_fallback:
  assumes "withRetry (chat_create env (build_prompt f)) default_options tr0 = (Inr resp, tr1)"
    and "completion_text resp = Inl err"
  shows "enhanceWithGPT_sonar env f tr0 =
           (Inr (message f), tr1 @ [ConsoleError (GptError err)])"
  using assms by (simp add: enhanceWithGPT_sonar_def gpt_fallback_def)

text \<open>
  Claim C6, as amended. When the chat-completion request succeeds and the first choice
  of the response has a text, \<open>enhanceWithGPT\<close> returns that text without the white
  space at its ends, and that trimmed text is what the script publishes for the finding:
  the body of the review comment in \<open>reviewer.js\<close>, the line printed after the
  enrichment in \<open>sonar-reviewer.js\<close>. When the request succeeds and the response has
  no first choice, or the content of its first choice is \<open>null\<close>, the \<open>TypeError\<close>
  is printed and \<open>enhanceWithGPT\<close> returns the original message of the finding, which
  is then what the script publishes.
\<close>

theorem enrich_success_returns_trimmed:
  "(chat_outcome env (chat_calls tr) (build_prompt f) = Inr resp \<and>
    choices resp = Some content # others \<longrightarrow>
      enhanceWithGPT_reviewer env f tr = (Inr (trim content), tr @ [ChatCreate (build_prompt f)]) \<and>
      review_issue env f tr =
        (Inr (),
         tr @ [ChatCreate (build_prompt f), ConsoleLog (LogComment (trim content)),
               CreateReviewComment (trim content) (review_path (component f))
                 (if truthy (line f) then line f else JNum 1)] @
              (case comment_outcome env (comment_calls tr) of
                 Inl e \<Rightarrow> [ConsoleError (CommentError e)]
               | Inr u \<Rightarrow> []))) \<and>
   (withRetry (chat_create env (build_prompt f)) default_options tr = (Inr resp, tr1) \<and>
    choices resp = Some content # others \<longrightarrow>
      enhanceWithGPT_sonar env f tr = (Inr (trim content), tr1)) \<and>
   (withRetry (chat_create env (build_prompt f)) default_options (tr @ console_header f) =
      (Inr resp, tr1) \<and>
    choices resp = Some content # others \<longrightarrow>
      console_issue env f tr = (Inr (), tr1 @ console_footer (trim content))) \<and>
   (\<exists>pre post. content = pre @ trim content @ post \<and>
        list_all is_space pre \<and> list_all is_space post) \<and>
   (trim content \<noteq> [] \<longrightarrow>
      \<not> is_space (hd (trim content)) \<and> \<not> is_space (last (trim content))) \<and>
   (chat_outcome env (chat_calls tr) (build_prompt f) = Inr resp \<and>
    (choices resp = [] \<and> err = undefined_property_error \<or>
     choices resp = None # others \<and> err = null_property_error) \<longrightarrow>
      enhanceWithGPT_reviewer env f tr =
        (Inr (message f), tr @ [ChatCreate (build_prompt f), ConsoleError (GptError err)]) \<and>
      review_issue env f tr =
        (Inr (),
         tr @ [ChatCreate (build_prompt f), ConsoleError (GptError err),
               ConsoleLog (LogComment (message f)),
               CreateReviewComment (message f) (review_path (component f))
                 (if truthy (line f) then line f else JNum 1)] @
              (case comment_outcome env (comment_calls tr) of
                 Inl e \<Rightarrow> [ConsoleError (CommentError e)]
               | Inr u \<Rightarrow> []))) \<and>
   (withRetry (chat_create env (build_prompt f)) default_options tr = (Inr resp, tr1) \<and>
    (choices resp = [] \<and> err = undefined_property_error \<or>
     choices resp = None # others \<and> err = null_property_error) \<longrightarrow>
      enhanceWithGPT_sonar env f tr =
        (Inr (message f), tr1 @ [ConsoleError (GptError err)])) \<and>
   (withRetry (chat_create env (build_prompt f)) default_options (tr @ console_header f) =
      (Inr resp, tr1) \<and>
    (choices resp = [] \<and> err = undefined_property_error \<or>
     choices resp = None # others \<and> err = null_property_error) \<longrightarrow>
      console_issue env f tr =
        (Inr (), tr1 @ [ConsoleError (GptError err)] @ console_footer (message f)))"
proof (intro conjI impI)
  assume a: "chat_outcome env (chat_calls tr) (build_prompt f) = Inr resp \<and>
    (choices resp = [] \<and> err = undefined_property_error \<or>
     choices resp = None # others \<and> err = null_property_error)"
  then have t: "completion_text resp = Inl err"
    using completion_text_no_choice completion_text_null by blast
  show "enhanceWithGPT_reviewer env f tr =
        (Inr (message f), tr @ [ChatCreate (build_prompt f), ConsoleError (GptError err)])"
    using a t by (intro review_issue_fallback(1)) blast+
  show "review_issue env f tr =
        (Inr (),
         tr @ [ChatCreate (build_prompt f), ConsoleError (GptError err),
               ConsoleLog (LogComment (message f)),
               CreateReviewComment (message f) (review_path (component f))
                 (if truthy (line f) then line f else JNum 1)] @
              (case comment_outcome env (comment_calls tr) of
                 Inl e \<Rightarrow> [ConsoleError (CommentError e)]
               | Inr u \<Rightarrow> []))"
    using a t by (intro review_issue_fallback(2)) blast+
next
  assume a: "withRetry (chat_create env (build_prompt f)) default_options tr = (Inr resp, tr1) \<and>
    (choices resp = [] \<and> err = undefined_property_error \<or>
     choices resp = None # others \<and> err = null_property_error)"
  then have t: "completion_text resp = Inl err"
    using completion_text_no_choice completion_text_null by blast
  show "enhanceWithGPT_sonar env f tr = (Inr (message f), tr1 @ [ConsoleError (GptError err)])"
    using a t by (intro console_issue_fallback) blast+
next
  assume a: "withRetry (chat_create env (build_prompt f)) default_options (tr @ console_header f) =
      (Inr resp, tr1) \<and>
    (choices resp = [] \<and> err = undefined_property_error \<or>
     choices resp = None # others \<and> err = null_property_error)"
  then have t: "completion_text resp = Inl err"
    using completion_text_no_choice completion_text_null by blast
  have "enhanceWithGPT_sonar env f (tr @ console_header f) =
          (Inr (message f), tr1 @ [ConsoleError (GptError err)])"
    using a t by (intro console_issue_fallback) blast+
  then show "console_issue env f tr =
        (Inr (), tr1 @ [ConsoleError (GptError err)] @ console_footer (message f))"
    by (simp add: console_issue_def)
next
  assume a: "chat_outcome env (chat_calls tr) (build_prompt f) = Inr resp \<and>
    choices resp = Some content # others"
  then show "enhanceWithGPT_reviewer env f tr =
      (Inr (trim content), tr @ [ChatCreate (build_prompt f)])"
    by (simp add: enhanceWithGPT_reviewer_def chat_create_def completion_text_first)
  from a show "review_issue env f tr =
        (Inr (),
         tr @ [ChatCreate (build_prompt f), ConsoleLog (LogComment (trim content)),
               CreateReviewComment (trim content) (review_path (component f))
                 (if truthy (line f) then line f else JNum 1)] @
              (case comment_outcome env (comment_calls tr) of
                 Inl e \<Rightarrow> [ConsoleError (CommentError e)]
               | Inr u \<Rightarrow> []))"
    by (intro review_issue_succeeded) blast+
next
  assume "withRetry (chat_create env (build_prompt f)) default_options tr = (Inr resp, tr1) \<and>
    choices resp = Some content # others"
  then show "enhanceWithGPT_sonar env f tr = (Inr (trim content), tr1)"
    by (intro enhanceWithGPT_sonar_succeeded) blast+
next
  assume "withRetry (chat_create env (build_prompt f)) default_options (tr @ console_header f) =
      (Inr resp, tr1) \<and> choices resp = Some content # others"
  then have "enhanceWithGPT_sonar env f (tr @ console_header f) = (Inr (trim content), tr1)"
    by (intro enhanceWithGPT_sonar_succeeded) blast+
  then show "console_issue env f tr = (Inr (), tr1 @ console_footer (trim content))"
    by (simp add: console_issue_def)
next
  show "\<exists>pre post. content = pre @ trim content @ post \<and>
        list_all is_space pre \<and> list_all is_space post"
    by (rule trim_splits)
next
  assume "trim content \<noteq> []"
  then show "\<not> is_space (hd (trim content))" "\<not> is_space (last (trim content))"
    using trim_ends by blast+
qed

text \<open>The example completion, and a response with no choices, for a finding at line 12.\<close>

theorem enrich_success_returns_trimmed_witness:
  "review_issue
     (example_env (Inr (ok_response [finding_c]))
        (\<lambda>n p. Inr (ChatResponse [Some example_completion])))
     finding_c [] =
     (Inr (),
      [ChatCreate (build_prompt finding_c),
       ConsoleLog (LogComment ''The value is never read.''),
       CreateReviewComment ''The value is never read.'' (Some ''src/d.ts'') (JNum 12)]) \<and>
   console_issue
     (example_env (Inr (ok_response [finding_c]))
        (\<lambda>n p. Inr (ChatResponse [Some example_completion])))
     finding_c [] =
     (Inr (),
      console_header finding_c @ [ChatCreate (build_prompt finding_c)] @
      console_footer ''The value is never read.'') \<and>
   review_issue
     (example_env (Inr (ok_response [finding_c])) (\<lambda>n p. Inr (ChatResponse [])))
     finding_c [] =
     (Inr (),
      [ChatCreate (build_prompt finding_c),
       ConsoleError (GptError undefined_property_error),
       ConsoleLog (LogComment ''Remove this useless assignment.''),
       CreateReviewComment ''Remove this useless assignment.'' (Some ''src/d.ts'') (JNum 12)])"
proof -
  let ?resp = "ChatResponse [Some example_completion]"
  let ?env = "example_env (Inr (ok_response [finding_c])) (\<lambda>n p. Inr ?resp)"
  have t: "trim example_completion = ''The value is never read.''"
    by (simp add: example_completion_def trim_def is_space_def nl_def)
  have w: "withRetry (chat_create ?env (build_prompt finding_c)) default_options
             ([] @ console_header finding_c) =
           (Inr ?resp, console_header finding_c @ [ChatCreate (build_prompt finding_c)])"
    by (simp add: withRetry_chat_first_success example_env_def)
  have c: "chat_outcome ?env (chat_calls []) (build_prompt finding_c) = Inr ?resp"
    by (simp add: example_env_def)
  have p: "review_path (component finding_c) = Some ''src/d.ts''"
    by (simp add: review_path_eq second_piece_def finding_c_def)
  have l: "line finding_c = JNum 12" by (simp add: finding_c_def)
  have o: "comment_outcome ?env (comment_calls []) = Inr ()"
    by (simp add: example_env_def)
  let ?bare = "example_env (Inr (ok_response [finding_c])) (\<lambda>n p. Inr (ChatResponse []))"
  have c0: "chat_outcome ?bare (chat_calls []) (build_prompt finding_c) = Inr (ChatResponse [])"
    by (simp add: example_env_def)
  have o0: "comment_outcome ?bare (comment_calls []) = Inr ()"
    by (simp add: example_env_def)
  have m: "message finding_c = ''Remove this useless assignment.''"
    by (simp add: finding_c_def)
  have ok: "review_issue ?env finding_c [] =
     (Inr (),
      [ChatCreate (build_prompt finding_c),
       ConsoleLog (LogComment ''The value is never read.''),
       CreateReviewComment ''The value is never read.'' (Some ''src/d.ts'') (JNum 12)]) \<and>
   console_issue ?env finding_c [] =
     (Inr (),
      console_header finding_c @ [ChatCreate (build_prompt finding_c)] @
      console_footer ''The value is never read.'')"
    using enrich_success_returns_trimmed
            [of ?env "[]" finding_c ?resp example_completion "[]"
                "console_header finding_c @ [ChatCreate (build_prompt finding_c)]"]
          w c
    by (simp add: t p l o)
  have "review_issue ?bare finding_c [] =
     (Inr (),
      [ChatCreate (build_prompt finding_c),
       ConsoleError (GptError undefined_property_error),
       ConsoleLog (LogComment ''Remove this useless assignment.''),
       CreateReviewComment ''Remove this useless assignment.'' (Some ''src/d.ts'') (JNum 12)])"
    using enrich_success_returns_trimmed
            [of ?bare "[]" finding_c "ChatResponse []" "[]" "[]" "[]" undefined_property_error]
          c0
    by (simp add: p l o0 m)
  with ok show ?thesis by simp
qed

text \<open>
  Claim C6 as stated fails when the request succeeds with a response whose first choice
  has no text (\<open>content\<close> is \<open>null\<close>): reading \<open>.trim\<close> throws inside the \<open>try\<close>
  block, and both scripts return the original message of the finding.
\<close>

theorem enrich_success_counterexample:
  "fst (chat_create (example_env (Inr (ok_response [finding_c])) (\<lambda>n p. Inr (ChatResponse [None])))
          (build_prompt finding_c) []) = Inr (ChatResponse [None]) \<and>
   fst (enhanceWithGPT_reviewer
          (example_env (Inr (ok_response [finding_c])) (\<lambda>n p. Inr (ChatResponse [None])))
          finding_c []) = Inr (message finding_c) \<and>
   fst (enhanceWithGPT_sonar
          (example_env (Inr (ok_response [finding_c])) (\<lambda>n p. Inr (ChatResponse [None])))
          finding_c []) = Inr (message finding_c)"
proof -
  let ?env = "example_env (Inr (ok_response [finding_c])) (\<lambda>n p. Inr (ChatResponse [None]))"
  have "withRetry (chat_create ?env (build_prompt finding_c)) default_options [] =
          (Inr (ChatResponse [None]), [] @ [ChatCreate (build_prompt finding_c)])"
    by (rule withRetry_chat_first_success) (simp add: example_env_def)
  then have "fst (enhanceWithGPT_sonar ?env finding_c []) = Inr (message finding_c)"
    by (simp add: enhanceWithGPT_sonar_def completion_text_def index_def gpt_fallback_def)
  moreover have "fst (enhanceWithGPT_reviewer ?env finding_c []) = Inr (message finding_c)"
    by (simp add: enhanceWithGPT_reviewer_def chat_create_def completion_text_def index_def
          gpt_fallback_def example_env_def)
  moreover have "fst (chat_create ?env (build_prompt finding_c) []) = Inr (ChatResponse [None])"
    by (simp add: chat_create_def example_env_def)
  ultimately show ?thesis by simp
qed

section \<open>The order of a run\<close>

text \<open>
  The trace of \<open>withRetry\<close> around the chat-completion request for a finding: requests
  with the prompt of that finding and waits, nothing else, and at least the first request.
\<close>

lemma withRetry_loop_chat_trace:
  "\<exists>es. snd (withRetry_loop (chat_create env (build_prompt f)) opts attempt lastErr tr) = tr @ es \<and>
        list_all (enrich_event f) es \<and>
        (attempt \<le> retries opts \<longrightarrow> es \<noteq> [] \<and> hd es = ChatCreate (build_prompt f))"
proof (induction "chat_create env (build_prompt f)" opts attempt lastErr tr
       rule: withRetry_loop.induct)
  case (1 opts attempt lastErr tr)
  let ?p = "build_prompt f"
  let ?op = "chat_create env ?p"
  show ?case
  proof (cases "attempt \<le> retries opts")
    case False
    then have "snd (withRetry_loop ?op opts attempt lastErr tr) = tr @ []"
      by (subst withRetry_loop.simps) simp
    then show ?thesis using False by fastforce
  next
    case le: True
    show ?thesis
    proof (cases "chat_outcome env (chat_calls tr) ?p")
      case (Inr resp)
      then have "?op tr = (Inr resp, tr @ [ChatCreate ?p])"
        by (simp add: chat_create_def)
      then have "withRetry_loop ?op opts attempt lastErr tr = (Inr resp, tr @ [ChatCreate ?p])"
        using le by (intro withRetry_loop_success)
      then have "snd (withRetry_loop ?op opts attempt lastErr tr) = tr @ [ChatCreate ?p]"
        by simp
      then show ?thesis by fastforce
    next
      case (Inl err)
      then have call: "?op tr = (Inl err, tr @ [ChatCreate ?p])"
        by (simp add: chat_create_def)
      show ?thesis
      proof (cases "\<not> is_conn err \<or> attempt = retries opts")
        case True
        then have "withRetry_loop ?op opts attempt lastErr tr = (Inl err, tr @ [ChatCreate ?p])"
          using le call by (intro withRetry_loop_give_up)
        then have "snd (withRetry_loop ?op opts attempt lastErr tr) = tr @ [ChatCreate ?p]"
          by simp
        then show ?thesis by fastforce
      next
        case False
        then have lt: "attempt < retries opts" and conn: "is_conn err"
          using le by auto
        let ?d = "Sleep (baseDelayMs opts * 2 ^ attempt)"
        let ?tr2 = "(tr @ [ChatCreate ?p]) @ [?d]"
        have step: "withRetry_loop ?op opts attempt lastErr tr =
                    withRetry_loop ?op opts (attempt + 1) (Some err) ?tr2"
          using withRetry_loop_again[where fn = ?op and lastErr = lastErr, OF lt call conn]
          by simp
        obtain es where es: "snd (withRetry_loop ?op opts (attempt + 1) (Some err) ?tr2) = ?tr2 @ es"
          and all: "list_all (enrich_event f) es"
          using "1"[OF le call[symmetric] refl False] by blast
        have "snd (withRetry_loop ?op opts attempt lastErr tr) = tr @ (ChatCreate ?p # ?d # es)"
          using es by (simp add: step)
        moreover have "list_all (enrich_event f) (ChatCreate ?p # ?d # es)"
          using all by simp
        ultimately show ?thesis by fastforce
      qed
    qed
  qed
qed

lemma enhanceWithGPT_sonar_trace:
  "\<exists>c es. enhanceWithGPT_sonar env f tr = (Inr c, tr @ es) \<and> es \<noteq> [] \<and>
          hd es = ChatCreate (build_prompt f) \<and> list_all (enrich_event f) es"
proof -
  let ?w = "withRetry (chat_create env (build_prompt f)) default_options tr"
  obtain es where es: "snd ?w = tr @ es" and all: "list_all (enrich_event f) es"
    and ne: "es \<noteq> []" and hd: "hd es = ChatCreate (build_prompt f)"
    using withRetry_loop_chat_trace[of env f default_options 0 None tr]
    by (auto simp: withRetry_def)
  obtain r where w: "?w = (r, tr @ es)"
    using es by (cases ?w) simp
  have fallback: "\<exists>c es'. (Inr (message f), (tr @ es) @ [ConsoleError (GptError err)]) =
                    (Inr c, tr @ es') \<and> es' \<noteq> [] \<and> hd es' = ChatCreate (build_prompt f) \<and>
                    list_all (enrich_event f) es'" for err :: thrown
  proof (intro exI conjI)
    show "(Inr (message f), (tr @ es) @ [ConsoleError (GptError err)]) =
          (Inr (message f), tr @ (es @ [ConsoleError (GptError err)]))"
      by simp
    show "es @ [ConsoleError (GptError err)] \<noteq> []" by simp
    show "hd (es @ [ConsoleError (GptError err)]) = ChatCreate (build_prompt f)"
      using ne hd by simp
    show "list_all (enrich_event f) (es @ [ConsoleError (GptError err)])"
      using all by simp
  qed
  show ?thesis
  proof (cases r)
    case (Inl err)
    then have "enhanceWithGPT_sonar env f tr =
                 (Inr (message f), (tr @ es) @ [ConsoleError (GptError err)])"
      using w by (simp add: enhanceWithGPT_sonar_def gpt_fallback_def)
    then show ?thesis using fallback[of err] by simp
  next
    case (Inr resp)
    show ?thesis
    proof (cases "completion_text resp")
      case (Inl err)
      then have "enhanceWithGPT_sonar env f tr =
                   (Inr (message f), (tr @ es) @ [ConsoleError (GptError err)])"
        using w Inr by (simp add: enhanceWithGPT_sonar_def gpt_fallback_def)
      then show ?thesis using fallback[of err] by simp
    next
      case (Inr t)
      then have "enhanceWithGPT_sonar env f tr = (Inr t, tr @ es)"
        using w \<open>r = Inr resp\<close> by (simp add: enhanceWithGPT_sonar_def)
      then show ?thesis using ne hd all by blast
    qed
  qed
qed

lemma span_enrich_events:
  assumes "list_all (enrich_event f) es" and "\<not> enrich_event f x"
  shows "takeWhile (enrich_event f) (es @ x # xs) = es"
    and "dropWhile (enrich_event f) (es @ x # xs) = x # xs"
  using assms by (induction es) auto

text \<open>One iteration of \<open>sonar-reviewer.js\<close>.\<close>

lemma console_issue_block:
  "\<exists>b. console_issue env f tr = (Inr (), tr @ b) \<and> console_block f b"
proof -
  obtain c es where e: "enhanceWithGPT_sonar env f (tr @ console_header f) =
                          (Inr c, (tr @ console_header f) @ es)"
    and ne: "es \<noteq> []" and hd: "hd es = ChatCreate (build_prompt f)"
    and all: "list_all (enrich_event f) es"
    using enhanceWithGPT_sonar_trace[of env f "tr @ console_header f"] by blast
  let ?b = "console_header f @ es @ console_footer c"
  have run: "console_issue env f tr = (Inr (), tr @ ?b)"
    by (simp add: console_issue_def e)
  have len: "length (console_header f) = 6"
    by (simp add: console_header_def)
  have t: "take 6 ?b = console_header f" and d: "drop 6 ?b = es @ console_footer c"
    using len by simp_all
  have foot: "console_footer c =
                ConsoleLog LogEnhancedHeader # [ConsoleLog (LogText c), ConsoleLog LogBlank]"
    by (simp add: console_footer_def)
  have tw: "takeWhile (enrich_event f) (es @ console_footer c) = es"
    unfolding foot by (rule span_enrich_events(1)[OF all]) simp
  have dw: "dropWhile (enrich_event f) (es @ console_footer c) = console_footer c"
    unfolding foot by (rule span_enrich_events(2)[OF all]) simp
  have "console_block f ?b"
    unfolding console_block_def t d tw dw
    using ne hd by (simp add: console_footer_def)
  then show ?thesis using run by blast
qed

text \<open>One iteration of \<open>reviewer.js\<close>.\<close>

lemma review_issue_block:
  "\<exists>b. review_issue env f tr = (Inr (), tr @ b) \<and> review_block f b \<and> publish_after_enrich b"
proof -
  obtain c es where e: "enhanceWithGPT_reviewer env f tr = (Inr c, tr @ ChatCreate (build_prompt f) # es)"
    and es: "es = [] \<or> (\<exists>err. es = [ConsoleError (GptError err)] \<and> c = message f)"
    using enhanceWithGPT_reviewer_cases by blast
  let ?es = "ChatCreate (build_prompt f) # es"
  let ?ln = "if truthy (line f) then line f else JNum 1"
  let ?pub = "CreateReviewComment c (review_path (component f)) ?ln"
  define rest where "rest =
     (case comment_outcome env (comment_calls tr) of
        Inl err \<Rightarrow> [ConsoleError (CommentError err)] | Inr u \<Rightarrow> [])"
  let ?b = "?es @ ConsoleLog (LogComment c) # ?pub # rest"
  have all: "list_all (enrich_event f) ?es"
    using es by auto
  have cc: "comment_calls (tr @ ?es @ [ConsoleLog (LogComment c)]) = comment_calls tr"
    using es by (auto simp: comment_calls_simps)
  have run: "review_issue env f tr = (Inr (), tr @ ?b)"
    using cc by (simp add: review_issue_def e postComment_def rest_def split: sum.splits)
  have rest: "length rest \<le> 1" "list_all is_comment_error rest" "\<not> list_ex is_chat rest"
    by (simp_all add: rest_def split: sum.splits)
  have tw: "takeWhile (enrich_event f) ?b = ?es"
    by (rule span_enrich_events(1)[OF all]) simp
  have dw: "dropWhile (enrich_event f) ?b = ConsoleLog (LogComment c) # ?pub # rest"
    by (rule span_enrich_events(2)[OF all]) simp
  have block: "review_block f ?b"
    unfolding review_block_def tw dw using rest by simp
  have "dropWhile (\<lambda>e. \<not> is_publish e) ?b = ConsoleLog (LogComment c) # ?pub # rest"
    using es by auto
  then have "publish_after_enrich ?b"
    unfolding publish_after_enrich_def using rest by simp
  then show ?thesis using run block by blast
qed

lemma review_loop_blocks:
  "\<exists>bs. review_loop env fs tr = (Inr (), tr @ concat bs) \<and> list_all2 review_block fs bs \<and>
        list_all publish_after_enrich bs"
proof (induction fs arbitrary: tr)
  case Nil
  have "review_loop env [] tr = (Inr (), tr @ concat [])" by simp
  then show ?case by (intro exI[of _ "[]"]) simp
next
  case (Cons f fs)
  obtain b where b: "review_issue env f tr = (Inr (), tr @ b)" "review_block f b"
    "publish_after_enrich b"
    using review_issue_block by blast
  obtain bs where bs: "review_loop env fs (tr @ b) = (Inr (), (tr @ b) @ concat bs)"
    "list_all2 review_block fs bs" "list_all publish_after_enrich bs"
    using Cons.IH by blast
  have "review_loop env (f # fs) tr = (Inr (), tr @ concat (b # bs))"
    using b(1) bs(1) by simp
  moreover have "list_all2 review_block (f # fs) (b # bs)"
    using b(2) bs(2) by simp
  moreover have "list_all publish_after_enrich (b # bs)"
    using b(3) bs(3) by simp
  ultimately show ?case by blast
qed

lemma console_loop_blocks:
  "\<exists>bs. console_loop env fs tr = (Inr (), tr @ concat bs) \<and> list_all2 console_block fs bs"
proof (induction fs arbitrary: tr)
  case Nil
  have "console_loop env [] tr = (Inr (), tr @ concat [])" by simp
  then show ?case by (intro exI[of _ "[]"]) simp
next
  case (Cons f fs)
  obtain b where b: "console_issue env f tr = (Inr (), tr @ b)" "console_block f b"
    using console_issue_block by blast
  obtain bs where bs: "console_loop env fs (tr @ b) = (Inr (), (tr @ b) @ concat bs)"
    "list_all2 console_block fs bs"
    using Cons.IH by blast
  have "console_loop env (f # fs) tr = (Inr (), tr @ concat (b # bs))"
    using b(1) bs(1) by simp
  moreover have "list_all2 console_block (f # fs) (b # bs)"
    using b(2) bs(2) by simp
  ultimately show ?case by blast
qed

text \<open>
  Claim C8, as amended. Both scripts process the fetched findings one after the other, in
  the order of the fetched list: the trace of the loop is the concatenation of one block
  of events per finding, in that order, and no iteration throws. In \<open>reviewer.js\<close> the
  block of a finding is its enrichment (request, perhaps the error line) and then its
  publication (console line and review comment with the enriched text), so the enrichment
  is over before the publication begins. In \<open>sonar-reviewer.js\<close> the block of a finding
  is the six console lines that show the finding, then its enrichment (requests and
  waits, perhaps the error line), then the console lines with the enriched text.
\<close>

theorem findings_processed_in_order:
  assumes "fst (fetchSonarIssues env []) = Inr fs"
  shows "(\<exists>bs. run_reviewer env tr = (Inr (), tr @ Fetch (issues_url env) # concat bs) \<and>
               list_all2 review_block fs bs \<and> list_all publish_after_enrich bs) \<and>
         (fs \<noteq> [] \<longrightarrow>
            (\<exists>bs. run_sonar env tr =
                     (Inr (),
                      tr @ [ConsoleLog LogFetching, Fetch (issues_url env),
                            ConsoleLog (LogFound (length fs)), ConsoleLog LogEnhancing] @
                      concat bs @
                      [ConsoleLog LogSeparator, ConsoleLog (LogComplete (length fs))]) \<and>
                  list_all2 console_block fs bs))"
proof (intro conjI impI)
  have f: "fetchSonarIssues env t = (Inr fs, t @ [Fetch (issues_url env)])" for t
    using assms fetchSonarIssues_result[of env t] fetchSonarIssues_trace[of env t]
    by (simp add: prod_eq_iff)
  obtain bs where bs: "review_loop env fs (tr @ [Fetch (issues_url env)]) =
                         (Inr (), (tr @ [Fetch (issues_url env)]) @ concat bs)"
    "list_all2 review_block fs bs" "list_all publish_after_enrich bs"
    using review_loop_blocks by blast
  have "run_reviewer env tr = (Inr (), tr @ Fetch (issues_url env) # concat bs)"
    using bs(1) by (simp add: run_reviewer_def f)
  then show "\<exists>bs. run_reviewer env tr = (Inr (), tr @ Fetch (issues_url env) # concat bs) \<and>
               list_all2 review_block fs bs \<and> list_all publish_after_enrich bs"
    using bs(2,3) by blast
  assume ne: "fs \<noteq> []"
  let ?start = "((tr @ [ConsoleLog LogFetching]) @ [Fetch (issues_url env)]) @
                [ConsoleLog (LogFound (length fs))] @ [ConsoleLog LogEnhancing]"
  obtain cs where cs: "console_loop env fs ?start = (Inr (), ?start @ concat cs)"
    "list_all2 console_block fs cs"
    using console_loop_blocks by blast
  have "run_sonar env tr =
          (Inr (),
           tr @ [ConsoleLog LogFetching, Fetch (issues_url env),
                 ConsoleLog (LogFound (length fs)), ConsoleLog LogEnhancing] @
           concat cs @ [ConsoleLog LogSeparator, ConsoleLog (LogComplete (length fs))])"
    using cs(1) ne by (simp add: run_sonar_def f Let_def)
  then show "\<exists>bs. run_sonar env tr =
                     (Inr (),
                      tr @ [ConsoleLog LogFetching, Fetch (issues_url env),
                            ConsoleLog (LogFound (length fs)), ConsoleLog LogEnhancing] @
                      concat bs @
                      [ConsoleLog LogSeparator, ConsoleLog (LogComplete (length fs))]) \<and>
                  list_all2 console_block fs bs"
    using cs(2) by blast
qed

text \<open>
  Two findings; the first request succeeds and every later one fails with
  \<open>401 Unauthorized\<close>.
\<close>

theorem findings_processed_in_order_witness:
  "(\<exists>bs. run_reviewer
            (example_env (Inr (ok_response [finding_a, finding_b]))
               (\<lambda>n p. if n = 0 then Inr (ChatResponse [Some example_completion])
                       else Inl (Thrown (Some ''401 Unauthorized'')))) [] =
            (Inr (),
             Fetch ''http://localhost:9000/api/issues/search?componentKeys=myproj&resolved=false'' #
             concat bs) \<and>
          list_all2 review_block [finding_a, finding_b] bs \<and>
          list_all publish_after_enrich bs) \<and>
   (\<exists>bs. run_sonar
            (example_env (Inr (ok_response [finding_a, finding_b]))
               (\<lambda>n p. if n = 0 then Inr (ChatResponse [Some example_completion])
                       else Inl (Thrown (Some ''401 Unauthorized'')))) [] =
            (Inr (),
             [ConsoleLog LogFetching,
              Fetch ''http://localhost:9000/api/issues/search?componentKeys=myproj&resolved=false'',
              ConsoleLog (LogFound 2), ConsoleLog LogEnhancing] @
             concat bs @ [ConsoleLog LogSeparator, ConsoleLog (LogComplete 2)]) \<and>
          list_all2 console_block [finding_a, finding_b] bs)"
proof -
  let ?env = "example_env (Inr (ok_response [finding_a, finding_b]))
               (\<lambda>n p. if n = 0 then Inr (ChatResponse [Some example_completion])
                       else Inl (Thrown (Some ''401 Unauthorized'')))"
  have "fst (fetchSonarIssues ?env []) = Inr [finding_a, finding_b]"
    by (simp add: fetchSonarIssues_def example_env_def ok_response_def)
  from findings_processed_in_order[OF this, of "[]"] show ?thesis
    by (simp add: issues_url_def example_env_def numeral_2_eq_2)
qed

text \<open>
  Claim C8 as stated fails in \<open>sonar-reviewer.js\<close>: the iteration for a finding prints
  the file, line, severity, rule and message of the finding before it calls
  \<open>enhanceWithGPT\<close>, so the printing of the finding begins before its enrichment.
\<close>

theorem findings_processed_in_order_counterexample:
  "console_issue
     (example_env (Inr (ok_response [finding_a])) (\<lambda>n p. Inr (ChatResponse [Some example_completion])))
     finding_a [] =
     (Inr (),
      [ConsoleLog LogSeparator,
       ConsoleLog (LogFile ''src/a/b.ts''),
       ConsoleLog (LogLine ''N/A''),
       ConsoleLog (LogSeverity ''MINOR''),
       ConsoleLog (LogRule ''typescript:S1128''),
       ConsoleLog (LogOriginal ''Remove this unused import.''),
       ChatCreate (build_prompt finding_a),
       ConsoleLog LogEnhancedHeader,
       ConsoleLog (LogText ''The value is never read.''),
       ConsoleLog LogBlank]) \<and>
   \<not> publish_after_enrich
       (snd (console_issue
               (example_env (Inr (ok_response [finding_a]))
                  (\<lambda>n p. Inr (ChatResponse [Some example_completion])))
               finding_a []))"
proof -
  let ?env = "example_env (Inr (ok_response [finding_a]))
                (\<lambda>n p. Inr (ChatResponse [Some example_completion]))"
  have t: "trim example_completion = ''The value is never read.''"
    by (simp add: example_completion_def trim_def is_space_def nl_def)
  have h: "console_header finding_a =
      [ConsoleLog LogSeparator,
       ConsoleLog (LogFile ''src/a/b.ts''),
       ConsoleLog (LogLine ''N/A''),
       ConsoleLog (LogSeverity ''MINOR''),
       ConsoleLog (LogRule ''typescript:S1128''),
       ConsoleLog (LogOriginal ''Remove this unused import.'')]"
    by (simp add: console_header_def console_path_eq second_piece_def finding_a_def)
  have "withRetry (chat_create ?env (build_prompt finding_a)) default_options
          ([] @ console_header finding_a) =
        (Inr (ChatResponse [Some example_completion]),
         ([] @ console_header finding_a) @ [ChatCreate (build_prompt finding_a)])"
    by (rule withRetry_chat_first_success) (simp add: example_env_def)
  then have e: "enhanceWithGPT_sonar ?env finding_a ([] @ console_header finding_a) =
        (Inr (trim example_completion),
         ([] @ console_header finding_a) @ [ChatCreate (build_prompt finding_a)])"
    by (rule enhanceWithGPT_sonar_succeeded) simp
  have r: "console_issue ?env finding_a [] =
     (Inr (),
      [ConsoleLog LogSeparator,
       ConsoleLog (LogFile ''src/a/b.ts''),
       ConsoleLog (LogLine ''N/A''),
       ConsoleLog (LogSeverity ''MINOR''),
       ConsoleLog (LogRule ''typescript:S1128''),
       ConsoleLog (LogOriginal ''Remove this unused import.''),
       ChatCreate (build_prompt finding_a),
       ConsoleLog LogEnhancedHeader,
       ConsoleLog (LogText ''The value is never read.''),
       ConsoleLog LogBlank])"
    unfolding console_issue_def e by (simp add: t h console_footer_def)
  show ?thesis
    unfolding r by (simp add: publish_after_enrich_def)
qed

section \<open>A whole run, evaluated\<close>

text \<open>
  \<open>sonar-reviewer.js\<close> on two findings, where the first request succeeds and the second
  fails with \<open>401 Unauthorized\<close>: two blocks, the second with the original message,
  and the summary line with the count 2.
\<close>

lemma run_sonar_two_findings:
  "main (run_sonar
     (example_env (Inr (ok_response [finding_c, finding_b]))
        (\<lambda>n p. if n = 0 then Inr (ChatResponse [Some example_completion])
                else Inl (Thrown (Some ''401 Unauthorized''))))) [] =
   (0,
    [ConsoleLog LogFetching,
     Fetch ''http://localhost:9000/api/issues/search?componentKeys=myproj&resolved=false'',
     ConsoleLog (LogFound 2), ConsoleLog LogEnhancing] @
    console_header finding_c @
    [ChatCreate (build_prompt finding_c)] @
    console_footer ''The value is never read.'' @
    console_header finding_b @
    [ChatCreate (build_prompt finding_b),
     ConsoleError (GptError (Thrown (Some ''401 Unauthorized'')))] @
    console_footer ''Remove this commented out code.'' @
    [ConsoleLog LogSeparator, ConsoleLog (LogComplete 2)])"
proof -
  let ?chat = "\<lambda>(n::nat) (p::string). if n = 0 then Inr (ChatResponse [Some example_completion])
                else Inl (Thrown (Some ''401 Unauthorized''))"
  let ?env = "example_env (Inr (ok_response [finding_c, finding_b])) ?chat"
  let ?tr0 = "[ConsoleLog LogFetching,
     Fetch ''http://localhost:9000/api/issues/search?componentKeys=myproj&resolved=false'',
     ConsoleLog (LogFound 2), ConsoleLog LogEnhancing]"
  let ?tr1 = "?tr0 @ console_header finding_c"
  let ?tr2 = "(?tr1 @ [ChatCreate (build_prompt finding_c)]) @
              console_footer ''The value is never read.''"
  let ?tr3 = "?tr2 @ console_header finding_b"
  have t: "trim example_completion = ''The value is never read.''"
    by (simp add: example_completion_def trim_def is_space_def nl_def)
  have c: "chat_outcome ?env = ?chat"
    by (simp add: example_env_def)
  have n1: "chat_calls ?tr1 = 0"
    by (simp add: chat_calls_simps console_header_def)
  have n3: "chat_calls ?tr3 = 1"
    by (simp add: chat_calls_simps console_header_def console_footer_def)
  have "withRetry (chat_create ?env (build_prompt finding_c)) default_options ?tr1 =
          (Inr (ChatResponse [Some example_completion]), ?tr1 @ [ChatCreate (build_prompt finding_c)])"
    by (rule withRetry_chat_first_success) (use n1 in \<open>simp add: c\<close>)
  then have "enhanceWithGPT_sonar ?env finding_c ?tr1 =
          (Inr (trim example_completion), ?tr1 @ [ChatCreate (build_prompt finding_c)])"
    by (rule enhanceWithGPT_sonar_succeeded) simp
  then have i1: "console_issue ?env finding_c ?tr0 = (Inr (), ?tr2)"
    by (simp only: console_issue_def t prod.case sum.case)
  have "withRetry (chat_create ?env (build_prompt finding_b)) default_options ?tr3 =
          (Inl (Thrown (Some ''401 Unauthorized'')), ?tr3 @ [ChatCreate (build_prompt finding_b)])"
    by (rule withRetry_chat_not_transient) (use n3 in \<open>simp_all add: c is_conn_def\<close>)
  then have "enhanceWithGPT_sonar ?env finding_b ?tr3 =
          (Inr (message finding_b),
           (?tr3 @ [ChatCreate (build_prompt finding_b)]) @
           [ConsoleError (GptError (Thrown (Some ''401 Unauthorized'')))])"
    by (rule enhanceWithGPT_sonar_failed)
  then have i2: "console_issue ?env finding_b ?tr2 =
          (Inr (),
           ((?tr3 @ [ChatCreate (build_prompt finding_b)]) @
            [ConsoleError (GptError (Thrown (Some ''401 Unauthorized'')))]) @
           console_footer (message finding_b))"
    by (simp only: console_issue_def prod.case sum.case)
  have m: "message finding_b = ''Remove this commented out code.''"
    by (simp add: finding_b_def)
  have f: "fetchSonarIssues ?env [ConsoleLog LogFetching] =
             (Inr [finding_c, finding_b],
              [ConsoleLog LogFetching,
               Fetch ''http://localhost:9000/api/issues/search?componentKeys=myproj&resolved=false''])"
    by (simp add: fetchSonarIssues_def issues_url_def example_env_def ok_response_def)
  have loop: "console_loop ?env [finding_c, finding_b] ?tr0 =
          (Inr (),
           ((?tr3 @ [ChatCreate (build_prompt finding_b)]) @
            [ConsoleError (GptError (Thrown (Some ''401 Unauthorized'')))]) @
           console_footer (message finding_b))"
    by (simp only: console_loop.simps i1 i2 prod.case sum.case)
  have len: "length [finding_c, finding_b] = 2"
    by simp
  have start: "[ConsoleLog LogFetching,
               Fetch ''http://localhost:9000/api/issues/search?componentKeys=myproj&resolved=false''] @
              [ConsoleLog (LogFound 2)] = 
              [ConsoleLog LogFetching,
               Fetch ''http://localhost:9000/api/issues/search?componentKeys=myproj&resolved=false'',
               ConsoleLog (LogFound 2)]"
    by simp
  have start': "[ConsoleLog LogFetching,
               Fetch ''http://localhost:9000/api/issues/search?componentKeys=myproj&resolved=false'',
               ConsoleLog (LogFound 2)] @ [ConsoleLog LogEnhancing] = ?tr0"
    by simp
  have "run_sonar ?env [] =
          (Inr (),
           (((?tr3 @ [ChatCreate (build_prompt finding_b)]) @
            [ConsoleError (GptError (Thrown (Some ''401 Unauthorized'')))]) @
           console_footer (message finding_b)) @
           [ConsoleLog LogSeparator, ConsoleLog (LogComplete 2)])"
    unfolding run_sonar_def append_Nil f prod.case sum.case Let_def len start start' loop
    by simp
  then show ?thesis
    by (simp add: main_def m)
qed

end
